theory Spec2Isabelle
  imports Complex_Main
begin

section \<open>Python strings\<close>

text \<open>
  A Python \<open>str\<close> is modelled as a \<open>string\<close>: a list of characters, each a code point
  below 256. The library operations the code calls are written out for that range:
  \<open>str.upper\<close> and \<open>str.lower\<close> change the ASCII letters only. Python changes some
  other characters of the range too (\<open>str.upper\<close> turns the sharp s into \<open>SS\<close>); the
  code applies the two functions to text it has tested to be hex digits, or filters the
  result down to hex digits (vendor lookup); the address test of the upload and the
  length test of \<open>lookup_vendor_from_csv\<close> are exact for ASCII addresses.
  \<open>str.strip\<close> removes the characters for which \<open>str.isspace\<close> holds, \<open>str.split\<close> with a
  separator cuts at every occurrence.
\<close>

definition hexdigits :: "char list" where
  "hexdigits = ''0123456789abcdefABCDEF''"

definition hexdigits_upper :: "char list" where
  "hexdigits_upper = ''0123456789ABCDEF''"

definition hexdigits_lower :: "char list" where
  "hexdigits_lower = ''0123456789abcdef''"

definition upper_char :: "char \<Rightarrow> char" where
  "upper_char c =
     (case map_of (zip ''abcdefghijklmnopqrstuvwxyz'' ''ABCDEFGHIJKLMNOPQRSTUVWXYZ'') c of
        Some u \<Rightarrow> u
      | None \<Rightarrow> c)"

definition lower_char :: "char \<Rightarrow> char" where
  "lower_char c =
     (case map_of (zip ''ABCDEFGHIJKLMNOPQRSTUVWXYZ'' ''abcdefghijklmnopqrstuvwxyz'') c of
        Some u \<Rightarrow> u
      | None \<Rightarrow> c)"

definition upper :: "string \<Rightarrow> string" where
  "upper s = map upper_char s"

definition lower :: "string \<Rightarrow> string" where
  "lower s = map lower_char s"

definition whitespace :: "char list" where
  \<comment> \<open>the characters below 256 with \<open>str.isspace\<close>: tab, LF, VT, FF, CR, FS, GS, RS, US,
      space, NEL, NBSP\<close>
  "whitespace = [CHR 0x09, CHR 0x0A, CHR 0x0B, CHR 0x0C, CHR 0x0D, CHR 0x1C, CHR 0x1D,
                 CHR 0x1E, CHR 0x1F, CHR 0x20, CHR 0x85, CHR 0xA0]"

definition lstrip_chars :: "char list \<Rightarrow> string \<Rightarrow> string" where
  "lstrip_chars cs s = dropWhile (\<lambda>c. c \<in> set cs) s"

definition rstrip_chars :: "char list \<Rightarrow> string \<Rightarrow> string" where
  "rstrip_chars cs s = rev (dropWhile (\<lambda>c. c \<in> set cs) (rev s))"

definition strip :: "string \<Rightarrow> string" where
  "strip s = rstrip_chars whitespace (lstrip_chars whitespace s)"

definition startswith :: "string \<Rightarrow> string \<Rightarrow> bool" where
  "startswith s p = (take (length p) s = p)"

fun split_char :: "char \<Rightarrow> string \<Rightarrow> string list" where
  "split_char sep [] = [[]]"
| "split_char sep (c # cs) =
     (if c = sep then [] # split_char sep cs
      else (case split_char sep cs of
              [] \<Rightarrow> [[c]]
            | p # ps \<Rightarrow> (c # p) # ps))"

definition split_once :: "char \<Rightarrow> string \<Rightarrow> string \<times> string" where
  \<comment> \<open>\<open>s.split(sep, 1)\<close> for an \<open>s\<close> that holds \<open>sep\<close>: the text before the first
      separator and the text after it\<close>
  "split_once sep s = (takeWhile (\<lambda>c. c \<noteq> sep) s, drop 1 (dropWhile (\<lambda>c. c \<noteq> sep) s))"

fun join :: "string \<Rightarrow> string list \<Rightarrow> string" where
  "join sep [] = []"
| "join sep [x] = x"
| "join sep (x # y # ys) = x @ sep @ join sep (y # ys)"

definition slice :: "nat \<Rightarrow> nat \<Rightarrow> 'a list \<Rightarrow> 'a list" where
  \<comment> \<open>\<open>s[i:j]\<close>, which never raises\<close>
  "slice i j s = take (j - i) (drop i s)"

definition last_part :: "string list \<Rightarrow> string" where
  \<comment> \<open>\<open>parts[-1]\<close> of a list \<open>split\<close> returned, which is never empty\<close>
  "last_part ps = (case rev ps of [] \<Rightarrow> [] | p # _ \<Rightarrow> p)"

section \<open>Potfile lines (services/wpasec\_sync.py)\<close>

definition hex_to_mac :: "string \<Rightarrow> string" where
  "hex_to_mac s0 =
     (let s = upper (strip s0)
      in if length s = 12 \<and> list_all (\<lambda>c. c \<in> set hexdigits_upper) s
         then join '':'' (map (\<lambda>i. slice i (i + 2) s) [0, 2, 4, 6, 8, 10])
         else [])"

definition match_key_here :: "string \<Rightarrow> string \<Rightarrow> string option" where
  \<comment> \<open>the pattern \<open>key([0-9A-Fa-f]{12})\<close> matched at the start of \<open>s\<close>: group 1\<close>
  "match_key_here key s =
     (let g = slice (length key) (length key + 12) s
      in if startswith s key \<and> length g = 12 \<and> list_all (\<lambda>c. c \<in> set hexdigits) g
         then Some g else None)"

fun re_search_key :: "string \<Rightarrow> string \<Rightarrow> string option" where
  \<comment> \<open>\<open>re.search\<close>: the leftmost position where the pattern matches\<close>
  "re_search_key key [] = match_key_here key []"
| "re_search_key key (c # cs) =
     (case match_key_here key (c # cs) of
        Some g \<Rightarrow> Some g
      | None \<Rightarrow> re_search_key key cs)"

definition pot_short_form :: "string list \<Rightarrow> (string \<times> string) option" where
  \<comment> \<open>1) MIC/PMKID:APMAC:STAMAC:SSID:PASS\<close>
  "pot_short_form parts_colon =
     (if length parts_colon \<ge> 5 then
        (let ap_hex = parts_colon ! 1; pwd = last_part parts_colon; bssid = hex_to_mac ap_hex
         in if bssid \<noteq> [] \<and> pwd \<noteq> [] then Some (bssid, pwd) else None)
      else None)"

definition pot_plain_form :: "string list \<Rightarrow> (string \<times> string) option" where
  \<comment> \<open>2) APMAC:STAMAC:SSID:PASS\<close>
  "pot_plain_form parts_colon =
     (if length parts_colon \<ge> 4 then
        (let ap_hex = parts_colon ! 0; pwd = last_part parts_colon; bssid = hex_to_mac ap_hex
         in if bssid \<noteq> [] \<and> pwd \<noteq> [] then Some (bssid, pwd) else None)
      else None)"

definition pot_hash_line :: "string \<Rightarrow> (string \<times> string) option" where
  \<comment> \<open>3) WPA*01/02*...:PASS\<close>
  "pot_hash_line s =
     (if CHR '':'' \<in> set s then
        (let (hashpart, pwd) = split_once CHR '':'' s
         in if pwd \<noteq> [] \<and> startswith hashpart ''WPA*'' then
              (let seg = split_char CHR ''*'' hashpart
               in if length seg \<ge> 3 \<and> (seg ! 1 = ''01'' \<or> seg ! 1 = ''02'') then
                    (if length seg \<ge> 5 \<and> upper (seg ! 2) = ''PMKID'' \<and> hex_to_mac (seg ! 3) \<noteq> []
                     then Some (hex_to_mac (seg ! 3), pwd)
                     else if hex_to_mac (seg ! 2) \<noteq> [] then Some (hex_to_mac (seg ! 2), pwd)
                     else None)
                  else None)
            else None)
      else None)"

definition pot_keys :: "string list" where
  "pot_keys = [''AP='', ''APMAC='', ''BSSID='', ''AP_MAC='', ''BSSID_MAC='']"

fun pot_key_value :: "string list \<Rightarrow> string \<Rightarrow> (string \<times> string) option" where
  \<comment> \<open>4) the loop over the keys; it returns at the first key that gives a pair\<close>
  "pot_key_value [] s = None"
| "pot_key_value (key # keys) s =
     (case re_search_key key s of
        None \<Rightarrow> pot_key_value keys s
      | Some g \<Rightarrow>
          (let bssid = hex_to_mac g;
               pwd = (if CHR '':'' \<in> set s then snd (split_once CHR '':'' s) else [])
           in if bssid \<noteq> [] \<and> pwd \<noteq> [] then Some (bssid, pwd)
              else pot_key_value keys s))"

definition or_else :: "'a option \<Rightarrow> 'a option \<Rightarrow> 'a option" where
  "or_else a b = (case a of Some x \<Rightarrow> Some x | None \<Rightarrow> b)"

definition parse_pot_line :: "string \<Rightarrow> (string \<times> string) option" where
  \<comment> \<open>The body of the \<open>try\<close> raises nothing: every index is guarded by the length test
      before it, so the \<open>except\<close> branch is never taken.\<close>
  "parse_pot_line line =
     (let s = rstrip_chars [CHR 0x0D, CHR 0x0A] line
      in if s = [] \<or> startswith s ''#'' then None
         else (let parts_colon = split_char CHR '':'' s
               in or_else (pot_short_form parts_colon)
                    (or_else (pot_plain_form parts_colon)
                       (or_else (pot_hash_line s)
                          (pot_key_value pot_keys s)))))"

definition mac_groups :: "char list \<Rightarrow> string \<Rightarrow> bool" where
  \<comment> \<open>six groups of two digits of \<open>digits\<close>, joined by colons\<close>
  "mac_groups digits s =
     (let groups = split_char CHR '':'' s
      in length groups = 6 \<and>
         list_all (\<lambda>g. length g = 2 \<and> list_all (\<lambda>c. c \<in> set digits) g) groups)"

definition canonical_mac :: "string \<Rightarrow> bool" where
  \<comment> \<open>the canonical form of a hardware address: \<open>AA:BB:CC:DD:EE:FF\<close>, uppercase\<close>
  "canonical_mac s = mac_groups hexdigits_upper s"

definition is_valid_bssid :: "string \<Rightarrow> bool" where
  \<comment> \<open>\<open>_MAC_RE.fullmatch(s)\<close>, the pattern being
      \<open>(?i)\b([0-9a-f]{2}(?::[0-9a-f]{2}){5})\b\<close>: on a full match both \<open>\b\<close> hold, a
      hex digit being a word character\<close>
  "is_valid_bssid s = mac_groups hexdigits s"

fun dict_set :: "('k \<times> 'v) list \<Rightarrow> 'k \<Rightarrow> 'v \<Rightarrow> ('k \<times> 'v) list" where
  \<comment> \<open>\<open>d[k] = v\<close> on a dict, which keeps the order of insertion\<close>
  "dict_set [] k v = [(k, v)]"
| "dict_set ((k', v') # kvs) k v =
     (if k' = k then (k, v) # kvs else (k', v') # dict_set kvs k v)"

fun dedup_loop :: "(string \<times> string) list \<Rightarrow> (string \<times> string) list \<Rightarrow> (string \<times> string) list" where
  "dedup_loop best [] = best"
| "dedup_loop best ((bssid, pwd) # pairs) =
     (if \<not> is_valid_bssid bssid then dedup_loop best pairs
      else (let bssid_u = upper bssid
            in case map_of best bssid_u of
                 None \<Rightarrow> dedup_loop (dict_set best bssid_u pwd) pairs
               | Some cur \<Rightarrow>
                   if cur = [] \<and> pwd \<noteq> [] then dedup_loop (dict_set best bssid_u pwd) pairs
                   else dedup_loop best pairs))"

definition dedup_cracked :: "(string \<times> string) list \<Rightarrow> (string \<times> string) list" where
  "dedup_cracked pairs = dedup_loop [] pairs"

fun passwords_for :: "string \<Rightarrow> (string \<times> string) list \<Rightarrow> string list" where
  \<comment> \<open>the passwords a pair list gives for one address, in the order of the list: those of
      the pairs whose address is valid and upper-cases to \<open>k\<close>\<close>
  "passwords_for k [] = []"
| "passwords_for k ((bssid, pwd) # pairs) =
     (if is_valid_bssid bssid \<and> upper bssid = k then pwd # passwords_for k pairs
      else passwords_for k pairs)"

fun kept_password :: "string list \<Rightarrow> string" where
  \<comment> \<open>the spec's rule: the first-seen password stays unless it is empty and a later one is
      not; a non-empty password is never replaced\<close>
  "kept_password [] = []"
| "kept_password (p # ps) = (if p \<noteq> [] then p else kept_password ps)"

section \<open>The networks table (db/database.py, db/queries.py)\<close>

text \<open>
  The table \<open>networks\<close> of \<open>SCHEMA_SQL\<close>: an \<open>INTEGER PRIMARY KEY AUTOINCREMENT\<close> id, the
  twelve nullable columns, and \<open>UNIQUE(bssid, date, time)\<close>. A row is its id with its
  columns; \<open>NULL\<close> is \<open>None\<close>. The decoded network name may hold any code point, so it is
  a list of code points (\<open>unicode\<close>); the numbers are of a type \<open>'f\<close> that stands for
  Python's \<open>float\<close>. Storage failures (\<open>sqlite3.Error\<close>) are not modelled.
\<close>

type_synonym unicode = "nat list"

record 'f network =
  net_ssid :: "unicode option"
  net_bssid :: "string option"
  net_vendor :: "string option"
  net_date :: "string option"
  net_time :: "string option"
  net_hash_type :: "string option"
  net_hash_variant :: "string option"
  net_lat :: "'f option"
  net_lon :: "'f option"
  net_alt :: "'f option"
  net_accuracy :: "'f option"
  net_password :: "string option"

record 'f db =
  db_rows :: "(int \<times> 'f network) list"
  db_seq :: int  \<comment> \<open>\<open>sqlite_sequence\<close>: the largest id an insert ever drew\<close>

definition sql_eq :: "'a option \<Rightarrow> 'a option \<Rightarrow> bool" where
  \<comment> \<open>SQL's \<open>=\<close> in a \<open>WHERE\<close> clause: a comparison with \<open>NULL\<close> selects nothing\<close>
  "sql_eq a b = (case (a, b) of (Some x, Some y) \<Rightarrow> x = y | _ \<Rightarrow> False)"

definition same_key :: "'f network \<Rightarrow> 'f network \<Rightarrow> bool" where
  \<comment> \<open>two rows collide on \<open>UNIQUE(bssid, date, time)\<close>: SQLite holds \<open>NULL\<close>s distinct in a
      unique index, so a row with a \<open>NULL\<close> in one of the three columns collides with none\<close>
  "same_key r n =
     (sql_eq (net_bssid r) (net_bssid n) \<and> sql_eq (net_date r) (net_date n)
      \<and> sql_eq (net_time r) (net_time n))"

definition next_rowid :: "'f db \<Rightarrow> int" where
  \<comment> \<open>\<open>AUTOINCREMENT\<close>: one more than the largest id the table holds or an insert ever drew\<close>
  "next_rowid d = 1 + fold max (map fst (db_rows d)) (max 0 (db_seq d))"

definition insert_or_ignore :: "'f db \<Rightarrow> 'f network \<Rightarrow> 'f db \<times> int" where
  \<comment> \<open>\<open>INSERT OR IGNORE\<close> and the cursor's \<open>lastrowid\<close> after it, on the connection the
      function has just opened: the new id, or 0 when the row was ignored. SQLite draws the
      id before it checks the unique index and records it in \<open>sqlite_sequence\<close> when the
      statement ends, so an ignored insert uses up an id too; the \<open>with\<close> block commits on
      both ways out of the function\<close>
  "insert_or_ignore d n =
     (let i = next_rowid d
      in if list_ex (\<lambda>(i, r). same_key r n) (db_rows d) then (d\<lparr>db_seq := i\<rparr>, 0)
         else (d\<lparr>db_rows := db_rows d @ [(i, n)], db_seq := i\<rparr>, i))"

definition select_id :: "'f db \<Rightarrow> string option \<Rightarrow> string option \<Rightarrow> string option \<Rightarrow> int option" where
  \<comment> \<open>\<open>SELECT id FROM networks WHERE bssid = ? AND date = ? AND time = ?\<close>, \<open>fetchone\<close>\<close>
  "select_id d b dt tm =
     (case filter (\<lambda>(i, r). sql_eq (net_bssid r) b \<and> sql_eq (net_date r) dt
                              \<and> sql_eq (net_time r) tm) (db_rows d) of
        [] \<Rightarrow> None
      | (i, r) # _ \<Rightarrow> Some i)"

definition insert_network_record :: "'f db \<Rightarrow> 'f network \<Rightarrow> 'f db \<times> int" where
  "insert_network_record d n =
     (let (d', new_id) = insert_or_ignore d n
      in if new_id = 0 \<and> net_bssid n \<noteq> None then
           (case select_id d' (net_bssid n) (net_date n) (net_time n) of
              Some i \<Rightarrow> (d', i)
            | None \<Rightarrow> (d', - 1))
         else (d', new_id))"

definition sql_trim :: "string \<Rightarrow> string" where
  \<comment> \<open>SQLite's \<open>TRIM(X)\<close> removes spaces from both ends\<close>
  "sql_trim s = rstrip_chars '' '' (lstrip_chars '' '' s)"

definition sql_norm :: "string \<Rightarrow> string" where
  \<comment> \<open>\<open>REPLACE(REPLACE(UPPER(TRIM(x)), ':', ''), '-', '')\<close>; SQLite's \<open>UPPER\<close> changes the
      ASCII letters\<close>
  "sql_norm s = filter (\<lambda>c. c \<noteq> CHR ''-'') (filter (\<lambda>c. c \<noteq> CHR '':'') (upper (sql_trim s)))"

definition sql_blank :: "string option \<Rightarrow> bool" where
  \<comment> \<open>\<open>password IS NULL OR TRIM(password) = ''\<close>\<close>
  "sql_blank p = (case p of None \<Rightarrow> True | Some s \<Rightarrow> sql_trim s = [])"

definition update_matches :: "string \<Rightarrow> 'f network \<Rightarrow> bool" where
  \<comment> \<open>the \<open>WHERE\<close> clause of the \<open>UPDATE\<close>, for the parameter \<open>bssid\<close>\<close>
  "update_matches bssid r =
     ((case net_bssid r of None \<Rightarrow> False | Some b \<Rightarrow> sql_norm b = sql_norm bssid)
      \<and> sql_blank (net_password r))"

definition update_password :: "'f db \<Rightarrow> string \<Rightarrow> string \<Rightarrow> 'f db \<times> int" where
  \<comment> \<open>one \<open>UPDATE networks SET password = ? WHERE ...\<close> and the cursor's \<open>rowcount\<close>\<close>
  "update_password d bssid pwd =
     (d\<lparr>db_rows := map (\<lambda>(i, r). if update_matches bssid r
                                    then (i, r\<lparr>net_password := Some pwd\<rparr>) else (i, r))
                          (db_rows d)\<rparr>,
      int (length (filter (\<lambda>(i, r). update_matches bssid r) (db_rows d))))"

fun bulk_update_loop :: "'f db \<Rightarrow> int \<Rightarrow> (string \<times> string) list \<Rightarrow> 'f db \<times> int" where
  "bulk_update_loop d updated [] = (d, updated)"
| "bulk_update_loop d updated ((bssid, pwd) # items) =
     (if bssid = [] \<or> pwd = [] then bulk_update_loop d updated items
      else (let (d', n) = update_password d bssid pwd
            in bulk_update_loop d' (updated + n) items))"

definition bulk_update_passwords :: "'f db \<Rightarrow> (string \<times> string) list \<Rightarrow> 'f db \<times> int" where
  "bulk_update_passwords d items =
     (if items = [] then (d, 0) else bulk_update_loop d 0 items)"

section \<open>Downloading the potfile and the sync (services/wpasec\_sync.py)\<close>

datatype error =
    ValueError string
  | TypeError string
  | OverflowError string
  | KeyError string
  | RuntimeError string
  | WpaSecSyncError string
  | RequestException string  \<comment> \<open>what \<open>requests.get\<close> or \<open>raise_for_status\<close> raises\<close>

definition linebreaks :: "char list" where
  \<comment> \<open>the line boundaries of \<open>str.splitlines\<close> below 256: LF, VT, FF, CR, FS, GS, RS, NEL\<close>
  "linebreaks = [CHR 0x0A, CHR 0x0B, CHR 0x0C, CHR 0x0D, CHR 0x1C, CHR 0x1D, CHR 0x1E, CHR 0x85]"

fun splitlines_from :: "string \<Rightarrow> string \<Rightarrow> string list" where
  \<comment> \<open>\<open>cur\<close> is the line read so far, reversed; CR LF is one boundary; the text after the
      last boundary is a line when it is not empty\<close>
  "splitlines_from cur [] = (if cur = [] then [] else [rev cur])"
| "splitlines_from cur (c # cs) =
     (if c = CHR 0x0D then
        (case cs of
           [] \<Rightarrow> [rev cur]
         | d # ds \<Rightarrow> if d = CHR 0x0A then rev cur # splitlines_from [] ds
                     else rev cur # splitlines_from [] (d # ds))
      else if c \<in> set linebreaks then rev cur # splitlines_from [] cs
      else splitlines_from (c # cur) cs)"

definition splitlines :: "string \<Rightarrow> string list" where
  "splitlines s = splitlines_from [] s"

fun contains :: "string \<Rightarrow> string \<Rightarrow> bool" where
  \<comment> \<open>\<open>sub in s\<close>\<close>
  "contains [] sub = (sub = [])"
| "contains (c # cs) sub = (startswith (c # cs) sub \<or> contains cs sub)"

record settings =
  wpasec_url :: string
  wpasec_key :: string

datatype http_request = Get string "(string \<times> string) list"
  \<comment> \<open>the URL and the cookies; every request carries the same \<open>User-Agent\<close>\<close>

record http_response =
  status_code :: nat
  resp_text :: string

datatype http_outcome = Failed | Response http_response
  \<comment> \<open>\<open>requests.get\<close> raises (no connection, timeout) or returns a response\<close>

record http =
  http_net :: "nat \<Rightarrow> http_request \<Rightarrow> http_outcome"
    \<comment> \<open>the network: what the \<open>n\<close>-th request of the run is answered\<close>
  http_sent :: "http_request list"

definition requests_get :: "http \<Rightarrow> http_request \<Rightarrow> http \<times> http_outcome" where
  "requests_get h req = (h\<lparr>http_sent := http_sent h @ [req]\<rparr>, http_net h (length (http_sent h)) req)"

definition raise_for_status :: "http_response \<Rightarrow> bool" where
  \<comment> \<open>whether \<open>r.raise_for_status()\<close> raises: a 4xx or 5xx status\<close>
  "raise_for_status r = (400 \<le> status_code r \<and> status_code r < 600)"

fun http_get_attempts :: "nat \<Rightarrow> http \<Rightarrow> string \<Rightarrow> http \<times> (error + http_response)" where
  \<comment> \<open>the loop of \<open>_http_get_with_retry\<close> with \<open>k\<close> attempts left; the sleep between two
      attempts is not modelled\<close>
  "http_get_attempts 0 h url = (h, Inl (WpaSecSyncError (''HTTP GET failed for '' @ url)))"
| "http_get_attempts (Suc k) h url =
     (let (h', out) = requests_get h (Get url [])
      in case out of
           Failed \<Rightarrow> http_get_attempts k h' url
         | Response r \<Rightarrow> if raise_for_status r then http_get_attempts k h' url
                         else (h', Inr r))"

definition http_get_with_retry :: "http \<Rightarrow> string \<Rightarrow> http \<times> (error + http_response)" where
  "http_get_with_retry h url = http_get_attempts 3 h url"

definition parse_text :: "string \<Rightarrow> (string \<times> string) list" where
  "parse_text txt = dedup_cracked (List.map_filter parse_pot_line (splitlines txt))"

definition looks_html :: "string \<Rightarrow> bool" where
  "looks_html txt = (contains (lower txt) ''<html'' \<or> contains (lower txt) ''</html>'')"

definition wpasec_base :: "settings \<Rightarrow> string" where
  \<comment> \<open>the local \<open>base\<close>\<close>
  "wpasec_base st = rstrip_chars ''/'' (if wpasec_url st \<noteq> [] then wpasec_url st
                                       else ''https://wpa-sec.stanev.org'')"

definition url_qs :: "settings \<Rightarrow> string" where
  "url_qs st = wpasec_base st @ ''/?api&dl=1&key='' @ wpasec_key st"

definition cookie_get :: "settings \<Rightarrow> http_request" where
  \<comment> \<open>the fallback: the same endpoint, the key passed as a cookie\<close>
  "cookie_get st = Get (wpasec_base st @ ''/?api&dl=1'') [(''key'', wpasec_key st)]"

definition fallback_wanted :: "(string \<times> string) list \<Rightarrow> string \<Rightarrow> bool" where
  \<comment> \<open>\<open>(not pairs) and (looks_html or len(r.text) < 10)\<close>\<close>
  "fallback_wanted pairs txt = (pairs = [] \<and> (looks_html txt \<or> length txt < 10))"

definition download_cracked_potfile ::
    "settings \<Rightarrow> http \<Rightarrow> http \<times> (error + (string \<times> string) list)" where
  "download_cracked_potfile st h =
     (if wpasec_key st = [] then
        (h, Inl (WpaSecSyncError ''PWNMAP_WPASEC_KEY non configurata in settings.wpasec_key''))
      else
        (case http_get_with_retry h (url_qs st) of
           (h1, Inl e) \<Rightarrow> (h1, Inl e)
         | (h1, Inr r) \<Rightarrow>
             (let pairs = parse_text (resp_text r)
              in if fallback_wanted pairs (resp_text r) then
                   (case requests_get h1 (cookie_get st) of
                      (h2, Failed) \<Rightarrow> (h2, Inl (RequestException ''GET failed''))
                    | (h2, Response rc) \<Rightarrow>
                        if raise_for_status rc then (h2, Inl (RequestException ''HTTP error''))
                        else (h2, Inr (parse_text (resp_text rc))))
                 else (h1, Inr pairs))))"

record stats =
  cracked_pairs_total :: nat
  rows_updated :: int
  cracked_pairs :: "(string \<times> string) list"

definition sync_now :: "settings \<Rightarrow> http \<Rightarrow> 'f db \<Rightarrow> http \<times> 'f db \<times> (error + stats)" where
  "sync_now st h d =
     (case download_cracked_potfile st h of
        (h', Inl e) \<Rightarrow> (h', d, Inl e)
      | (h', Inr pairs) \<Rightarrow>
          (let (d', n) = bulk_update_passwords d pairs
           in (h', d', Inr \<lparr>cracked_pairs_total = length pairs, rows_updated = n,
                            cracked_pairs = pairs\<rparr>)))"

definition cookie_request :: "http_request \<Rightarrow> bool" where
  \<comment> \<open>a request that passes the key as a cookie\<close>
  "cookie_request req = (case req of Get url cookies \<Rightarrow> cookies \<noteq> [])"

definition unmatched :: "'f db \<Rightarrow> string \<Rightarrow> bool" where
  \<comment> \<open>no row of the table is selected by the \<open>UPDATE\<close> for \<open>bssid\<close>\<close>
  "unmatched d bssid = list_all (\<lambda>(i, r). \<not> update_matches bssid r) (db_rows d)"

section \<open>Hash lines and the converter's output (services/ingest.py)\<close>

definition is_hex :: "string \<Rightarrow> bool" where
  "is_hex s = (even (length s) \<and> list_all (\<lambda>c. c \<in> set hexdigits) s)"

definition hexval :: "char \<Rightarrow> nat" where
  \<comment> \<open>the value of a hex digit (0 for any other character, which \<open>is_hex\<close> excludes)\<close>
  "hexval c =
     (case map_of (zip ''0123456789abcdefABCDEF''
                       [0, 1, 2, 3, 4, 5, 6, 7, 8, 9, 10, 11, 12, 13, 14, 15, 10, 11, 12, 13, 14, 15]) c of
        Some v \<Rightarrow> v
      | None \<Rightarrow> 0)"

fun fromhex :: "string \<Rightarrow> nat list" where
  \<comment> \<open>\<open>bytes.fromhex\<close> on an even number of hex digits: one byte for two digits\<close>
  "fromhex (a # b # cs) = (16 * hexval a + hexval b) # fromhex cs"
| "fromhex _ = []"

definition continuation :: "nat \<Rightarrow> bool" where
  "continuation b = (0x80 \<le> b \<and> b < 0xC0)"

fun utf8_decode_ignore :: "nat list \<Rightarrow> unicode" where
  \<comment> \<open>\<open>bytes.decode("utf-8", errors="ignore")\<close>: the code points of the well-formed
      sequences; an ill-formed sequence is dropped up to the byte that breaks it, and a
      sequence cut off by the end of the data is dropped whole\<close>
  "utf8_decode_ignore [] = []"
| "utf8_decode_ignore (b # bs) =
     (if b < 0x80 then b # utf8_decode_ignore bs
      else if b < 0xC2 then utf8_decode_ignore bs
      else if b < 0xE0 then
        (case bs of
           [] \<Rightarrow> []
         | b2 # r2 \<Rightarrow>
             if \<not> continuation b2 then utf8_decode_ignore (b2 # r2)
             else ((b - 0xC0) * 64 + (b2 - 0x80)) # utf8_decode_ignore r2)
      else if b < 0xF0 then
        (case bs of
           [] \<Rightarrow> []
         | b2 # r2 \<Rightarrow>
             if \<not> continuation b2 \<or> (b = 0xE0 \<and> b2 < 0xA0) \<or> (b = 0xED \<and> 0xA0 \<le> b2)
             then utf8_decode_ignore (b2 # r2)
             else (case r2 of
                     [] \<Rightarrow> []
                   | b3 # r3 \<Rightarrow>
                       if \<not> continuation b3 then utf8_decode_ignore (b3 # r3)
                       else ((b - 0xE0) * 4096 + (b2 - 0x80) * 64 + (b3 - 0x80))
                              # utf8_decode_ignore r3))
      else if b < 0xF5 then
        (case bs of
           [] \<Rightarrow> []
         | b2 # r2 \<Rightarrow>
             if \<not> continuation b2 \<or> (b = 0xF0 \<and> b2 < 0x90) \<or> (b = 0xF4 \<and> 0x90 \<le> b2)
             then utf8_decode_ignore (b2 # r2)
             else (case r2 of
                     [] \<Rightarrow> []
                   | b3 # r3 \<Rightarrow>
                       if \<not> continuation b3 then utf8_decode_ignore (b3 # r3)
                       else (case r3 of
                               [] \<Rightarrow> []
                             | b4 # r4 \<Rightarrow>
                                 if \<not> continuation b4 then utf8_decode_ignore (b4 # r4)
                                 else ((b - 0xF0) * 262144 + (b2 - 0x80) * 4096
                                        + (b3 - 0x80) * 64 + (b4 - 0x80))
                                        # utf8_decode_ignore r4)))
      else utf8_decode_ignore bs)"

definition unicode_of :: "string \<Rightarrow> unicode" where
  \<comment> \<open>a \<open>str\<close> as the list of its code points\<close>
  "unicode_of s = map of_char s"

definition decode_essid :: "string \<Rightarrow> unicode" where
  \<comment> \<open>the \<open>except\<close> branch is never taken: \<open>fromhex\<close> gets hex digits only, and decoding
      with \<open>errors="ignore"\<close> does not raise\<close>
  "decode_essid essid_field =
     (if is_hex essid_field then utf8_decode_ignore (fromhex essid_field)
      else unicode_of essid_field)"

record hash_line =
  hl_kind :: string
  hl_bssid :: string
  hl_station :: string
  hl_ssid :: unicode
  hl_hash_type :: string
  hl_variant :: string

definition parse_22000_line :: "string \<Rightarrow> error + hash_line" where
  "parse_22000_line line =
     (let s = strip line
      in if \<not> startswith s ''WPA*'' then Inl (ValueError ''Not a 22000 WPA hashline'')
         else (let parts = split_char CHR ''*'' s
               in if length parts < 3 then Inl (ValueError ''Truncated 22000 line'')
                  else (let kind_code = parts ! 1
                        in if kind_code = ''01'' then
                             (if length parts < 6 then Inl (ValueError ''Invalid PMKID 22000 line'')
                              else Inr \<lparr>hl_kind = ''PMKID'', hl_bssid = parts ! 3,
                                        hl_station = parts ! 4, hl_ssid = decode_essid (parts ! 5),
                                        hl_hash_type = ''WPA'', hl_variant = ''PMKID''\<rparr>)
                           else if kind_code = ''02'' then
                             (if length parts < 6 then Inl (ValueError ''Invalid EAPOL 22000 line'')
                              else Inr \<lparr>hl_kind = ''EAPOL'', hl_bssid = parts ! 3,
                                        hl_station = parts ! 4, hl_ssid = decode_essid (parts ! 5),
                                        hl_hash_type = ''WPA'', hl_variant = ''EAPOL''\<rparr>)
                           else Inl (ValueError (''Unknown 22000 kind code: '' @ kind_code)))))"

definition fmt_mac_colon :: "string \<Rightarrow> string" where
  "fmt_mac_colon hex12 =
     (let h = filter (\<lambda>c. c \<in> set hexdigits) hex12
      in if length h \<noteq> 12 then []
         else upper (join '':'' (map (\<lambda>i. slice i (i + 2) h) [0, 2, 4, 6, 8, 10])))"

record converter_run =
  \<comment> \<open>what the function finds: the capture file, the converter's exit and streams, the
      output file and its text (as read with \<open>errors="ignore"\<close>)\<close>
  pcap_exists :: bool
  returncode :: int
  proc_stdout :: string
  proc_stderr :: string
  out_exists :: bool
  out_text :: string

record hc_meta =
  hc_ssid :: "unicode option"
  hc_bssid :: "string option"
  hc_type :: string
  hc_variant :: string

definition bssid_hex12_of :: "string \<Rightarrow> string" where
  \<comment> \<open>the local \<open>bssid_hex12\<close>: the address field without \<open>:\<close> and \<open>-\<close>, lower-cased;
      empty unless that is 12 lowercase hex digits\<close>
  "bssid_hex12_of bssid =
     (let bssid_raw = filter (\<lambda>c. c \<noteq> CHR ''-'') (filter (\<lambda>c. c \<noteq> CHR '':'') bssid);
          bssid_hex12 = lower bssid_raw
      in if length bssid_hex12 = 12 \<and> list_all (\<lambda>c. c \<in> set hexdigits_lower) bssid_hex12
         then bssid_hex12 else [])"

definition meta_of_line :: "hash_line \<Rightarrow> hc_meta" where
  \<comment> \<open>the part of \<open>convert_pcap_to_hc22000_and_meta\<close> after the line is parsed\<close>
  "meta_of_line meta =
     (let bssid_hex12 = bssid_hex12_of (hl_bssid meta);
          ssid = hl_ssid meta;
          variant = (if hl_variant meta \<noteq> [] then hl_variant meta
                     else if hl_kind meta = ''PMKID'' then ''PMKID'' else ''EAPOL'')
      in \<lparr>hc_ssid = (if ssid \<noteq> [] then Some ssid else None),
          hc_bssid = (if bssid_hex12 \<noteq> [] then Some (fmt_mac_colon bssid_hex12) else None),
          hc_type = ''WPA'',
          hc_variant = variant\<rparr>)"

definition first_wpa_line :: "string \<Rightarrow> string option" where
  \<comment> \<open>\<open>next((ln for ln in text.splitlines() if ln.startswith("WPA*")), None)\<close>\<close>
  "first_wpa_line txt = find (\<lambda>ln. startswith ln ''WPA*'') (splitlines txt)"

definition convert_pcap_to_hc22000_and_meta :: "converter_run \<Rightarrow> error + hc_meta" where
  "convert_pcap_to_hc22000_and_meta run =
     (if \<not> pcap_exists run then Inl (RuntimeError ''pcap not found'')
      else if returncode run \<noteq> 0 then
        Inl (RuntimeError (''hcxpcapngtool failed: '' @
               (if strip (proc_stderr run) \<noteq> [] then strip (proc_stderr run)
                else if strip (proc_stdout run) \<noteq> [] then strip (proc_stdout run)
                else ''unknown error'')))
      else if \<not> out_exists run then Inl (RuntimeError ''Conversion produced no .22000 file'')
      else (let txt = strip (out_text run)
            in if txt = [] then Inl (RuntimeError ''No valid WPA* lines in .22000'')
               else (case first_wpa_line txt of
                       None \<Rightarrow> Inl (RuntimeError ''No WPA* lines found in .22000'')
                     | Some first_line \<Rightarrow>
                         (case parse_22000_line first_line of
                            Inl e \<Rightarrow> Inl e
                          | Inr meta \<Rightarrow> Inr (meta_of_line meta)))))"

section \<open>Vendor lookup (services/ingest.py, services/vendors.py)\<close>

text \<open>
  The class \<open>OUILookup\<close> holds its state in class attributes: the flag \<open>_loaded\<close> and
  \<open>_map_by_len\<close>, one dictionary for each of the prefix lengths 6, 7 and 9. The CSV file
  is the input \<open>csv\<close>: \<open>None\<close> when the file does not exist, else the rows \<open>csv.reader\<close>
  yields.
\<close>

record oui =
  oui_loaded :: bool
  oui_map_by_len :: "nat \<Rightarrow> string \<rightharpoonup> string"

definition oui_initial :: oui where
  "oui_initial = \<lparr>oui_loaded = False, oui_map_by_len = (\<lambda>L. Map.empty)\<rparr>"

fun oui_load_rows :: "(nat \<Rightarrow> string \<rightharpoonup> string) \<Rightarrow> string list list \<Rightarrow> (nat \<Rightarrow> string \<rightharpoonup> string)" where
  "oui_load_rows m [] = m"
| "oui_load_rows m (row # rows) =
     (case row of
        [] \<Rightarrow> oui_load_rows m rows
      | [c0] \<Rightarrow> oui_load_rows m rows
      | c0 # c1 # _ \<Rightarrow>
          if startswith c0 ''#'' then oui_load_rows m rows
          else (let prefix = upper (strip c0); vendor = strip c1; L = length prefix
                in if (L = 6 \<or> L = 7 \<or> L = 9) \<and> list_all (\<lambda>c. c \<in> set hexdigits_upper) prefix
                   then oui_load_rows (m(L := (m L)(prefix \<mapsto> vendor))) rows
                   else oui_load_rows m rows))"

definition oui_load :: "oui \<Rightarrow> string list list option \<Rightarrow> oui" where
  "oui_load st csv =
     (if oui_loaded st then st
      else (case csv of
              None \<Rightarrow> st\<lparr>oui_loaded := True\<rparr>
            | Some rows \<Rightarrow>
                st\<lparr>oui_map_by_len := oui_load_rows (oui_map_by_len st) rows, oui_loaded := True\<rparr>))"

fun try_prefixes :: "(nat \<Rightarrow> string \<rightharpoonup> string) \<Rightarrow> string \<Rightarrow> nat list \<Rightarrow> string option" where
  \<comment> \<open>the loop \<open>for L in (9, 7, 6)\<close>: \<open>if vendor\<close> passes over a missing entry and over an
      entry whose vendor is the empty string\<close>
  "try_prefixes m mac [] = None"
| "try_prefixes m mac (L # Ls) =
     (case m L (take L mac) of
        Some vendor \<Rightarrow> if vendor \<noteq> [] then Some vendor else try_prefixes m mac Ls
      | None \<Rightarrow> try_prefixes m mac Ls)"

definition normalized_mac :: "string \<Rightarrow> string" where
  \<comment> \<open>the local \<open>mac\<close>: the hex digits of the upper-cased address\<close>
  "normalized_mac bssid_hex12 = filter (\<lambda>c. c \<in> set hexdigits_upper) (upper bssid_hex12)"

definition vendor_lookup :: "(nat \<Rightarrow> string \<rightharpoonup> string) \<Rightarrow> string \<Rightarrow> string option" where
  \<comment> \<open>\<open>vendor_for_bssid\<close> after \<open>cls._load()\<close>\<close>
  "vendor_lookup m bssid_hex12 =
     (if bssid_hex12 = [] then None
      else (let mac = normalized_mac bssid_hex12
            in if length mac < 9 then None else try_prefixes m mac [9, 7, 6]))"

definition vendor_for_bssid :: "oui \<Rightarrow> string list list option \<Rightarrow> string \<Rightarrow> oui \<times> string option" where
  "vendor_for_bssid st csv bssid_hex12 =
     (let st' = oui_load st csv in (st', vendor_lookup (oui_map_by_len st') bssid_hex12))"

definition lookup_vendor_from_csv ::
    "oui \<Rightarrow> string list list option \<Rightarrow> string option \<Rightarrow> oui \<times> string option" where
  "lookup_vendor_from_csv st csv bssid =
     (case bssid of
        None \<Rightarrow> (st, None)
      | Some b \<Rightarrow>
          if b = [] then (st, None)
          else (let cleaned = upper (strip (filter (\<lambda>c. c \<noteq> CHR ''-'') (filter (\<lambda>c. c \<noteq> CHR '':'') b)))
                in if length cleaned \<noteq> 12 \<or> \<not> list_all (\<lambda>c. c \<in> set hexdigits_upper) cleaned
                   then (st, None)
                   else vendor_for_bssid st csv cleaned))"

text \<open>
  The module \<open>services/vendors.py\<close> holds a second resolver, which no other module
  imports: one dictionary for prefixes of any length, tried from the longest key to the
  shortest.
\<close>

fun load_vendors_rows :: "(string \<times> string) list \<Rightarrow> string list list \<Rightarrow> (string \<times> string) list" where
  "load_vendors_rows mapping [] = mapping"
| "load_vendors_rows mapping (row # rows) =
     (case row of
        c0 # c1 # _ \<Rightarrow>
          load_vendors_rows
            (dict_set mapping
               (filter (\<lambda>c. c \<noteq> CHR ''-'') (filter (\<lambda>c. c \<noteq> CHR '':'') (upper (strip c0))))
               (strip c1)) rows
      | _ \<Rightarrow> load_vendors_rows mapping rows)"

definition load_vendors :: "string list list option \<Rightarrow> (string \<times> string) list \<times> string list" where
  \<comment> \<open>\<open>sorted(mapping.keys(), key=len, reverse=True)\<close> is stable: keys of one length keep
      the order of the dictionary\<close>
  "load_vendors csv =
     (let mapping = (case csv of None \<Rightarrow> [] | Some rows \<Rightarrow> load_vendors_rows [] rows)
      in (mapping, sort_key (\<lambda>k. - int (length k)) (map fst mapping)))"

definition vendor_from_bssid :: "string list list option \<Rightarrow> string \<Rightarrow> string option" where
  "vendor_from_bssid csv bssid =
     (let (mapping, ordered) = load_vendors csv;
          base = upper (filter (\<lambda>c. c \<noteq> CHR ''-'') (filter (\<lambda>c. c \<noteq> CHR '':'') bssid))
      in case find (\<lambda>k. startswith base k) ordered of
           None \<Rightarrow> None
         | Some k \<Rightarrow> map_of mapping k)"

section \<open>The location document (services/ingest.py)\<close>

text \<open>
  \<open>parse_gps_json\<close> works on what \<open>json.loads(raw.decode("utf-8"))\<close> returns: the model
  takes that value, or the text of the exception when decoding or parsing raises (the
  bytes are not valid JSON text). A JSON object is the list of
  the items of the dictionary, each key once. The numbers of the document are integers
  or floats; \<open>'f\<close> stands for Python's \<open>float\<close>. The functions of the standard library
  that read a timestamp or a number are parameters of the model, the record \<open>pylib\<close>:
  each returns \<open>None\<close> where the library raises. An exception the library raises keeps
  its class; its message is abridged to the words that do not depend on the value.
\<close>

datatype 'f json =
    JNull
  | JBool bool
  | JInt int
  | JFloat 'f
  | JStr string
  | JArr "'f json list"
  | JObj "(string \<times> 'f json) list"

record datetime =
  dt_year :: nat
  dt_month :: nat
  dt_day :: nat
  dt_hour :: nat
  dt_minute :: nat
  dt_second :: nat

record 'f pylib =
  fromisoformat :: "string \<Rightarrow> datetime option"
    \<comment> \<open>\<open>datetime.fromisoformat(s).replace(tzinfo=None)\<close>, to the second\<close>
  strptime_fixed :: "string \<Rightarrow> datetime option"
    \<comment> \<open>\<open>datetime.strptime(s, "%Y-%m-%d %H:%M:%S")\<close>\<close>
  float_of_int :: "int \<Rightarrow> 'f option"
    \<comment> \<open>\<open>float(i)\<close>; \<open>None\<close> is OverflowError\<close>
  float_of_bool :: "bool \<Rightarrow> 'f"
    \<comment> \<open>\<open>float(b)\<close>\<close>
  float_of_str :: "string \<Rightarrow> 'f option"
    \<comment> \<open>\<open>float(s)\<close>; \<open>None\<close> is ValueError\<close>
  round2 :: "'f \<Rightarrow> 'f"
    \<comment> \<open>\<open>round(x, 2)\<close>\<close>
  str_of :: "'f json \<Rightarrow> string"
    \<comment> \<open>\<open>str(v)\<close> for a value that is not a string\<close>

definition py_str :: "'f pylib \<Rightarrow> 'f json \<Rightarrow> string" where
  "py_str lib v = (case v of JStr s \<Rightarrow> s | _ \<Rightarrow> str_of lib v)"

definition replace_Z :: "string \<Rightarrow> string" where
  \<comment> \<open>\<open>s.replace("Z", "+00:00")\<close>\<close>
  "replace_Z s = concat (map (\<lambda>c. if c = CHR ''Z'' then ''+00:00'' else [c]) s)"

definition parse_updated_datetime :: "'f pylib \<Rightarrow> string \<Rightarrow> error + datetime" where
  "parse_updated_datetime lib updated =
     (let s = strip updated
      in case fromisoformat lib (replace_Z s) of
           Some dt \<Rightarrow> Inr dt
         | None \<Rightarrow>
             (case strptime_fixed lib s of
                Some dt \<Rightarrow> Inr dt
              | None \<Rightarrow> Inl (ValueError (''Unrecognized Updated datetime format: '' @ updated))))"

definition py_float :: "'f pylib \<Rightarrow> 'f json \<Rightarrow> error + 'f" where
  \<comment> \<open>\<open>float(v)\<close> for a value of a JSON document\<close>
  "py_float lib v =
     (case v of
        JFloat x \<Rightarrow> Inr x
      | JInt i \<Rightarrow> (case float_of_int lib i of
                     Some x \<Rightarrow> Inr x
                   | None \<Rightarrow> Inl (OverflowError ''int too large to convert to float''))
      | JBool b \<Rightarrow> Inr (float_of_bool lib b)
      | JStr s \<Rightarrow> (case float_of_str lib s of
                     Some x \<Rightarrow> Inr x
                   | None \<Rightarrow> Inl (ValueError ''could not convert string to float''))
      | _ \<Rightarrow> Inl (TypeError ''float() argument must be a string or a real number''))"

definition json_in :: "string \<Rightarrow> 'f json \<Rightarrow> error + bool" where
  \<comment> \<open>\<open>key in data\<close>: a key of a dictionary, an element of a list, a part of a string\<close>
  "json_in key data =
     (case data of
        JObj kv \<Rightarrow> Inr (map_of kv key \<noteq> None)
      | JArr xs \<Rightarrow> Inr (List.member xs (JStr key))
      | JStr s \<Rightarrow> Inr (contains s key)
      | _ \<Rightarrow> Inl (TypeError ''argument is not iterable''))"

definition bind :: "error + 'a \<Rightarrow> ('a \<Rightarrow> error + 'b) \<Rightarrow> error + 'b" where
  \<comment> \<open>the next statement runs when the one before it did not raise\<close>
  "bind r f = (case r of Inl e \<Rightarrow> Inl e | Inr x \<Rightarrow> f x)"

definition required_missing :: "'f json \<Rightarrow> error + bool" where
  \<comment> \<open>\<open>"Updated" not in data or "Latitude" not in data or "Longitude" not in data\<close>\<close>
  "required_missing data =
     bind (json_in ''Updated'' data) (\<lambda>u.
       if \<not> u then Inr True
       else bind (json_in ''Latitude'' data) (\<lambda>la.
         if \<not> la then Inr True
         else bind (json_in ''Longitude'' data) (\<lambda>lo. Inr (\<not> lo))))"

definition optional_float :: "'f pylib \<Rightarrow> 'f json option \<Rightarrow> error + 'f option" where
  \<comment> \<open>\<open>float(data.get(k)) if data.get(k) is not None else None\<close>\<close>
  "optional_float lib v =
     (case v of
        None \<Rightarrow> Inr None
      | Some JNull \<Rightarrow> Inr None
      | Some w \<Rightarrow> bind (py_float lib w) (\<lambda>x. Inr (Some x)))"

record 'f gps_info =
  gps_datetime :: datetime
  gps_latitude :: 'f
  gps_longitude :: 'f
  gps_altitude :: "'f option"
  gps_accuracy :: "'f option"

definition parse_gps_fields :: "'f pylib \<Rightarrow> (string \<times> 'f json) list \<Rightarrow> error + 'f gps_info" where
  \<comment> \<open>the statements after the test of the required keys, for a dictionary\<close>
  "parse_gps_fields lib kv =
     (case (map_of kv ''Updated'', map_of kv ''Latitude'', map_of kv ''Longitude'') of
        (Some u, Some la, Some lo) \<Rightarrow>
          bind (parse_updated_datetime lib (py_str lib u)) (\<lambda>dt.
          bind (py_float lib la) (\<lambda>lat.
          bind (py_float lib lo) (\<lambda>lon.
          bind (optional_float lib (map_of kv ''Altitude'')) (\<lambda>alt.
          bind (optional_float lib (map_of kv ''Accuracy'')) (\<lambda>acc.
            Inr \<lparr>gps_datetime = dt, gps_latitude = lat, gps_longitude = lon,
                 gps_altitude = map_option (round2 lib) alt, gps_accuracy = acc\<rparr>)))))
      | _ \<Rightarrow> Inl (KeyError ''Updated''))"

definition parse_gps_data :: "'f pylib \<Rightarrow> 'f json \<Rightarrow> error + 'f gps_info" where
  "parse_gps_data lib data =
     bind (required_missing data) (\<lambda>missing.
       if missing then Inl (ValueError ''Missing one of required keys: Updated, Latitude, Longitude'')
       else (case data of
               JObj kv \<Rightarrow> parse_gps_fields lib kv
             | JArr xs \<Rightarrow> Inl (TypeError ''list indices must be integers or slices, not str'')
             | _ \<Rightarrow> Inl (TypeError ''string indices must be integers, not str'')))"

definition parse_gps_json :: "'f pylib \<Rightarrow> string + 'f json \<Rightarrow> error + 'f gps_info" where
  "parse_gps_json lib loaded =
     (case loaded of
        Inl e \<Rightarrow> Inl (ValueError (''Invalid JSON: '' @ e))
      | Inr data \<Rightarrow> parse_gps_data lib data)"

text \<open>
  The words of the specification for what is wrong with a location document: a timestamp
  that matches neither form, and a value that is not numeric. \<open>float_input\<close> holds of the
  values on which \<open>float\<close> returns or raises ValueError.
\<close>

definition timestamp_unrecognised :: "'f pylib \<Rightarrow> string \<Rightarrow> bool" where
  "timestamp_unrecognised lib s =
     (fromisoformat lib (replace_Z (strip s)) = None \<and> strptime_fixed lib (strip s) = None)"

definition not_numeric :: "'f pylib \<Rightarrow> 'f json \<Rightarrow> bool" where
  \<comment> \<open>a string that \<open>float\<close> refuses\<close>
  "not_numeric lib v = (case v of JStr s \<Rightarrow> float_of_str lib s = None | _ \<Rightarrow> False)"

definition float_input :: "'f pylib \<Rightarrow> 'f json \<Rightarrow> bool" where
  \<comment> \<open>a float, a boolean, a string, or an integer in the range of \<open>float\<close>\<close>
  "float_input lib v =
     (case v of
        JFloat x \<Rightarrow> True
      | JBool b \<Rightarrow> True
      | JStr s \<Rightarrow> True
      | JInt i \<Rightarrow> float_of_int lib i \<noteq> None
      | _ \<Rightarrow> False)"

section \<open>The upload (routers/upload.py)\<close>

fun re_groups :: "nat \<Rightarrow> string \<Rightarrow> bool" where
  \<comment> \<open>\<open>([0-9A-Fa-f]{2}[:\-]){n}[0-9A-Fa-f]{2}\<close> on the whole of the string\<close>
  "re_groups 0 s = (case s of [a, b] \<Rightarrow> a \<in> set hexdigits \<and> b \<in> set hexdigits | _ \<Rightarrow> False)"
| "re_groups (Suc n) s =
     (case s of
        a # b # c # rest \<Rightarrow>
          a \<in> set hexdigits \<and> b \<in> set hexdigits \<and> (c = CHR '':'' \<or> c = CHR ''-'')
          \<and> re_groups n rest
      | _ \<Rightarrow> False)"

definition norm_bssid :: "string option \<Rightarrow> string option" where
  "norm_bssid x =
     (case x of
        None \<Rightarrow> None
      | Some s \<Rightarrow>
          if s = [] then None
          else (let y = map (\<lambda>c. if c = CHR ''-'' then CHR '':'' else c) (upper (strip s))
                in if re_groups 5 y then Some y else None))"

definition safe_stem :: "string \<Rightarrow> string" where
  \<comment> \<open>on \<open>Path(name).stem\<close>, which the model takes as given\<close>
  "safe_stem stem = (if CHR ''_'' \<in> set stem then fst (split_once CHR ''_'' stem) else stem)"

definition digit :: "nat \<Rightarrow> char" where
  "digit n = ''0123456789'' ! (n mod 10)"

definition pad2 :: "nat \<Rightarrow> string" where
  "pad2 n = [digit (n div 10), digit n]"

definition pad4 :: "nat \<Rightarrow> string" where
  "pad4 n = [digit (n div 1000), digit (n div 100), digit (n div 10), digit n]"

definition strftime_date :: "datetime \<Rightarrow> string" where
  \<comment> \<open>\<open>strftime("%Y-%m-%d")\<close>, the year written with four digits\<close>
  "strftime_date dt = pad4 (dt_year dt) @ ''-'' @ pad2 (dt_month dt) @ ''-'' @ pad2 (dt_day dt)"

definition strftime_time :: "datetime \<Rightarrow> string" where
  \<comment> \<open>\<open>strftime("%H:%M:%S")\<close>\<close>
  "strftime_time dt = pad2 (dt_hour dt) @ '':'' @ pad2 (dt_minute dt) @ '':'' @ pad2 (dt_second dt)"

record 'f server =
  srv_oui :: oui
  srv_db :: "'f db"

datatype upload_error = HTTP400 string | Uncaught error

record upload_response =
  resp_ssid :: unicode
  resp_record_id :: int
  resp_hash_meta_error :: "string option"

definition convert_or_none :: "converter_run \<Rightarrow> error + hc_meta option" where
  \<comment> \<open>the \<open>try\<close> around the conversion: a RuntimeError is logged and leaves \<open>hc_meta\<close>
      \<open>None\<close>; any other exception is not caught\<close>
  "convert_or_none run =
     (case convert_pcap_to_hc22000_and_meta run of
        Inr meta \<Rightarrow> Inr (Some meta)
      | Inl (RuntimeError m) \<Rightarrow> Inr None
      | Inl e \<Rightarrow> Inl e)"

definition meta_ssid_of :: "string \<Rightarrow> hc_meta option \<Rightarrow> unicode" where
  \<comment> \<open>\<open>(hc_meta.get("ssid") if isinstance(hc_meta, dict) else None) or ssid_from_name\<close>\<close>
  "meta_ssid_of ssid_from_name hc_meta =
     (case hc_meta of
        Some m \<Rightarrow> (case hc_ssid m of
                     Some s \<Rightarrow> if s \<noteq> [] then s else unicode_of ssid_from_name
                   | None \<Rightarrow> unicode_of ssid_from_name)
      | None \<Rightarrow> unicode_of ssid_from_name)"

definition upload_record ::
    "unicode \<Rightarrow> 'f gps_info \<Rightarrow> hc_meta option \<Rightarrow> string option \<Rightarrow> string option \<Rightarrow> 'f network" where
  \<comment> \<open>the arguments of \<open>insert_network_record\<close>\<close>
  "upload_record meta_ssid gps_info hc_meta bssid vendor =
     \<lparr>net_ssid = Some meta_ssid,
      net_bssid = bssid,
      net_vendor = vendor,
      net_date = Some (strftime_date (gps_datetime gps_info)),
      net_time = Some (strftime_time (gps_datetime gps_info)),
      net_hash_type = map_option hc_type hc_meta,
      net_hash_variant = map_option hc_variant hc_meta,
      net_lat = Some (gps_latitude gps_info),
      net_lon = Some (gps_longitude gps_info),
      net_alt = gps_altitude gps_info,
      net_accuracy = gps_accuracy gps_info,
      net_password = None\<rparr>"

definition upload_pair ::
    "'f pylib \<Rightarrow> string list list option \<Rightarrow> string \<Rightarrow> string \<Rightarrow> string + 'f json \<Rightarrow> converter_run
       \<Rightarrow> 'f server \<Rightarrow> 'f server \<times> (upload_error + upload_response)" where
  \<comment> \<open>\<open>filename\<close> is \<open>pcap.filename\<close> and \<open>stem\<close> its \<open>Path(...).stem\<close>; \<open>loaded\<close> is the
      location document as \<open>json.loads\<close> returns it; \<open>run\<close> is what the conversion of the
      stored capture finds; writing the two files is not modelled\<close>
  "upload_pair lib csv filename stem loaded run srv =
     (if filename = [] then (srv, Inl (HTTP400 ''pcap file missing filename''))
      else
        (case parse_gps_json lib loaded of
           Inl (ValueError m) \<Rightarrow> (srv, Inl (HTTP400 (''Invalid gps json: '' @ m)))
         | Inl e \<Rightarrow> (srv, Inl (Uncaught e))
         | Inr gps_info \<Rightarrow>
             (case convert_or_none run of
                Inl e \<Rightarrow> (srv, Inl (Uncaught e))
              | Inr hc_meta \<Rightarrow>
                  (let meta_ssid = meta_ssid_of (safe_stem stem) hc_meta;
                       bssid = norm_bssid (case hc_meta of Some m \<Rightarrow> hc_bssid m | None \<Rightarrow> None);
                       (oui', vendor) = (case bssid of
                                           None \<Rightarrow> (srv_oui srv, None)
                                         | Some b \<Rightarrow> lookup_vendor_from_csv (srv_oui srv) csv bssid);
                       (db', record_id) = insert_network_record (srv_db srv)
                                            (upload_record meta_ssid gps_info hc_meta bssid vendor)
                   in (\<lparr>srv_oui = oui', srv_db = db'\<rparr>,
                       Inr \<lparr>resp_ssid = meta_ssid,
                            resp_record_id = record_id,
                            resp_hash_meta_error =
                              (if hc_meta = None then Some ''no_22000'' else None)\<rparr>)))))"

section \<open>Inputs of the examples\<close>

definition example_settings :: settings where
  "example_settings = \<lparr>wpasec_url = ''https://wpa-sec.stanev.org/'', wpasec_key = ''k3y''\<rparr>"

definition example_http :: "string \<Rightarrow> http" where
  \<comment> \<open>a network that answers every request 200 with the body \<open>body\<close>; nothing sent yet\<close>
  "example_http body =
     \<lparr>http_net = (\<lambda>n req. Response \<lparr>status_code = 200, resp_text = body\<rparr>), http_sent = []\<rparr>"

definition example_row :: "string option \<Rightarrow> real network" where
  "example_row b =
     \<lparr>net_ssid = None, net_bssid = b, net_vendor = None,
      net_date = Some ''2025-08-29'', net_time = Some ''21:05:52'',
      net_hash_type = None, net_hash_variant = None,
      net_lat = Some 45.1, net_lon = Some 9.2, net_alt = None, net_accuracy = None,
      net_password = None\<rparr>"

definition empty_db :: "real db" where
  "empty_db = \<lparr>db_rows = [], db_seq = 0\<rparr>"

definition stored_db :: "string option \<Rightarrow> real db" where
  \<comment> \<open>a table of one row, address \<open>AA:BB:CC:DD:EE:FF\<close>, with the password \<open>p\<close>\<close>
  "stored_db p =
     \<lparr>db_rows = [(1, (example_row (Some ''AA:BB:CC:DD:EE:FF''))\<lparr>net_password := p\<rparr>)],
      db_seq = 1\<rparr>"

definition converter_ok :: "string \<Rightarrow> converter_run" where
  \<comment> \<open>a run of the converter that exits with 0 and writes the text \<open>txt\<close>\<close>
  "converter_ok txt =
     \<lparr>pcap_exists = True, returncode = 0, proc_stdout = [], proc_stderr = [],
      out_exists = True, out_text = txt\<rparr>"

definition example_csv :: "string list list" where
  \<comment> \<open>a 36-bit entry with an empty vendor name inside a 24-bit block\<close>
  "example_csv = [[''AABBCC'', ''Acme''], [''AABBCCDDE'', ''''], [''112233'', ''Old''],
                  [''112233445'', ''Narrow'']]"

text \<open>
  Stand-ins for the library functions of \<open>pylib\<close>, for the examples only. They agree
  with Python on the inputs the examples use: timestamps of the 19-character form
  \<open>YYYY-MM-DD HH:MM:SS\<close>, numbers written with decimal digits only, the rounding of
  123.456 to 123.46. They refuse every other string, where Python accepts some; the word
  \<open>high\<close> Python refuses as a number too.
\<close>

definition digits_to_nat :: "string \<Rightarrow> nat option" where
  "digits_to_nat s =
     (if s \<noteq> [] \<and> list_all (\<lambda>c. c \<in> set ''0123456789'') s
      then Some (fold (\<lambda>c n. 10 * n + hexval c) s 0) else None)"

definition days_in_month :: "nat \<Rightarrow> nat \<Rightarrow> nat" where
  "days_in_month y m =
     (if m = 2 then (if y mod 4 = 0 \<and> (y mod 100 \<noteq> 0 \<or> y mod 400 = 0) then 29 else 28)
      else if m = 4 \<or> m = 6 \<or> m = 9 \<or> m = 11 then 30 else 31)"

definition ymd_hms :: "(char \<Rightarrow> bool) \<Rightarrow> string \<Rightarrow> datetime option" where
  "ymd_hms sep s =
     (if length s = 19 \<and> s ! 4 = CHR ''-'' \<and> s ! 7 = CHR ''-'' \<and> sep (s ! 10)
         \<and> s ! 13 = CHR '':'' \<and> s ! 16 = CHR '':'' then
        (case (digits_to_nat (slice 0 4 s), digits_to_nat (slice 5 7 s),
               digits_to_nat (slice 8 10 s), digits_to_nat (slice 11 13 s),
               digits_to_nat (slice 14 16 s), digits_to_nat (slice 17 19 s)) of
           (Some y, Some m, Some d, Some hh, Some mm, Some ss) \<Rightarrow>
             if 1 \<le> y \<and> 1 \<le> m \<and> m \<le> 12 \<and> 1 \<le> d \<and> d \<le> days_in_month y m
                \<and> hh < 24 \<and> mm < 60 \<and> ss < 60
             then Some \<lparr>dt_year = y, dt_month = m, dt_day = d,
                        dt_hour = hh, dt_minute = mm, dt_second = ss\<rparr>
             else None
         | _ \<Rightarrow> None)
      else None)"

definition example_lib :: "real pylib" where
  "example_lib =
     \<lparr>fromisoformat = ymd_hms (\<lambda>c. True),
      strptime_fixed = ymd_hms (\<lambda>c. c = CHR '' ''),
      float_of_int = (\<lambda>i. Some (of_int i)),
      float_of_bool = (\<lambda>b. if b then 1 else 0),
      float_of_str = (\<lambda>s. map_option of_nat (digits_to_nat s)),
      round2 = (\<lambda>x. of_int (round (x * 100)) / 100),
      str_of = (\<lambda>v. [])\<rparr>"

definition example_gps :: "(string \<times> real json) list" where
  \<comment> \<open>\<open>{"Updated": "2025-08-29 21:05:52", "Latitude": 45.1, "Longitude": 9.2}\<close>\<close>
  "example_gps = [(''Updated'', JStr ''2025-08-29 21:05:52''), (''Latitude'', JFloat 45.1),
                  (''Longitude'', JFloat 9.2)]"

definition example_server :: "real server" where
  "example_server = \<lparr>srv_oui = oui_initial, srv_db = empty_db\<rparr>"

section \<open>Properties of the potfile parser\<close>

lemma set_rstrip_chars: "set (rstrip_chars cs s) \<subseteq> set s"
  unfolding rstrip_chars_def using set_dropWhileD by fastforce

lemma rstrip_chars_Cons:
  "rstrip_chars cs (c # xs) = [] \<or> (\<exists>ys. rstrip_chars cs (c # xs) = c # ys)"
proof (cases "list_all (\<lambda>x. x \<in> set cs) xs")
  case True
  then have "dropWhile (\<lambda>x. x \<in> set cs) (rev xs @ [c]) = dropWhile (\<lambda>x. x \<in> set cs) [c]"
    by (simp add: dropWhile_append list_all_iff)
  then show ?thesis unfolding rstrip_chars_def by simp
next
  case False
  then have "dropWhile (\<lambda>x. x \<in> set cs) (rev xs @ [c]) = dropWhile (\<lambda>x. x \<in> set cs) (rev xs) @ [c]"
    by (auto simp add: dropWhile_append list_all_iff)
  then show ?thesis unfolding rstrip_chars_def by simp
qed

lemma split_char_no_sep: "sep \<notin> set s \<Longrightarrow> split_char sep s = [s]"
  by (induction s) auto

lemma split_char_append_sep:
  "sep \<notin> set p \<Longrightarrow> split_char sep (p @ sep # rest) = p # split_char sep rest"
  by (induction p) auto

lemma split_char_join:
  "ps \<noteq> [] \<Longrightarrow> list_all (\<lambda>p. sep \<notin> set p) ps \<Longrightarrow> split_char sep (join [sep] ps) = ps"
proof (induction ps)
  case Nil then show ?case by simp
next
  case (Cons x xs)
  show ?case
  proof (cases xs)
    case Nil
    with Cons.prems show ?thesis by (simp add: split_char_no_sep)
  next
    case (Cons y ys)
    with Cons.prems Cons.IH show ?thesis by (simp add: split_char_append_sep)
  qed
qed

lemma pot_key_value_no_colon: "CHR '':'' \<notin> set s \<Longrightarrow> pot_key_value keys s = None"
  by (induction keys) (auto split: option.splits)

lemma parse_pot_line_no_colon:
  assumes "CHR '':'' \<notin> set line"
  shows "parse_pot_line line = None"
proof -
  define s where "s = rstrip_chars [CHR 0x0D, CHR 0x0A] line"
  have ns: "CHR '':'' \<notin> set s"
    using assms set_rstrip_chars[of "[CHR 0x0D, CHR 0x0A]" line] unfolding s_def by blast
  have sp: "split_char CHR '':'' s = [s]"
    using ns by (rule split_char_no_sep)
  show ?thesis
    unfolding parse_pot_line_def Let_def s_def[symmetric] sp
    using ns
    by (simp add: or_else_def pot_short_form_def pot_plain_form_def pot_hash_line_def
        pot_key_value_no_colon)
qed

lemma parse_pot_line_comment:
  assumes "startswith line ''#''"
  shows "parse_pot_line line = None"
proof -
  from assms obtain xs where l: "line = CHR ''#'' # xs"
    unfolding startswith_def by (cases line) auto
  from rstrip_chars_Cons[of "[CHR 0x0D, CHR 0x0A]" "CHR ''#''" xs]
  show ?thesis unfolding parse_pot_line_def Let_def l by (auto simp: startswith_def)
qed

lemmas pot_eval_defs =
  parse_pot_line_def rstrip_chars_def startswith_def or_else_def pot_short_form_def
  pot_plain_form_def pot_hash_line_def hex_to_mac_def upper_def strip_def lstrip_chars_def
  whitespace_def upper_char_def hexdigits_upper_def hexdigits_def slice_def last_part_def
  split_once_def match_key_here_def pot_keys_def

text \<open>
  Claim C4. The parser tries the short form, the plain form, the hash-line form and the
  key-value fallback in that order and the first success is the result; the line
  \<open>AABBCCDDEEFF:112233445566:MySSID:secretpw\<close> gives the pair
  \<open>(AA:BB:CC:DD:EE:FF, secretpw)\<close>; every line with no colon and every line that starts
  with \<open>#\<close> gives none. The order shows on a line that both the short and the plain form
  recognise: the short form's address (the second field) is the one returned.
\<close>

theorem parse_pot_line_examples:
  "parse_pot_line ''AABBCCDDEEFF:112233445566:MySSID:secretpw''
     = Some (''AA:BB:CC:DD:EE:FF'', ''secretpw'')
   \<and> (\<forall>line. CHR '':'' \<notin> set line \<longrightarrow> parse_pot_line line = None)
   \<and> (\<forall>line. startswith line ''#'' \<longrightarrow> parse_pot_line line = None)
   \<and> (\<forall>line. let s = rstrip_chars [CHR 0x0D, CHR 0x0A] line; parts = split_char CHR '':'' s in
         s \<noteq> [] \<and> \<not> startswith s ''#'' \<longrightarrow>
         parse_pot_line line =
           (case pot_short_form parts of Some r \<Rightarrow> Some r | None \<Rightarrow>
            (case pot_plain_form parts of Some r \<Rightarrow> Some r | None \<Rightarrow>
             (case pot_hash_line s of Some r \<Rightarrow> Some r | None \<Rightarrow>
              pot_key_value pot_keys s))))
   \<and> parse_pot_line ''AABBCCDDEEFF:112233445566:665544332211:MySSID:pw''
     = Some (''11:22:33:44:55:66'', ''pw'')"
proof (intro conjI allI impI)
  show "parse_pot_line ''AABBCCDDEEFF:112233445566:MySSID:secretpw''
     = Some (''AA:BB:CC:DD:EE:FF'', ''secretpw'')"
    by (simp add: pot_eval_defs)
  show "parse_pot_line ''AABBCCDDEEFF:112233445566:665544332211:MySSID:pw''
     = Some (''11:22:33:44:55:66'', ''pw'')"
    by (simp add: pot_eval_defs)
next
  fix line assume "CHR '':'' \<notin> set line"
  then show "parse_pot_line line = None" by (rule parse_pot_line_no_colon)
next
  fix line assume "startswith line ''#''"
  then show "parse_pot_line line = None" by (rule parse_pot_line_comment)
next
  fix line
  show "let s = rstrip_chars [CHR 0x0D, CHR 0x0A] line; parts = split_char CHR '':'' s in
         s \<noteq> [] \<and> \<not> startswith s ''#'' \<longrightarrow>
         parse_pot_line line =
           (case pot_short_form parts of Some r \<Rightarrow> Some r | None \<Rightarrow>
            (case pot_plain_form parts of Some r \<Rightarrow> Some r | None \<Rightarrow>
             (case pot_hash_line s of Some r \<Rightarrow> Some r | None \<Rightarrow>
              pot_key_value pot_keys s)))"
    unfolding parse_pot_line_def or_else_def Let_def by simp
qed

theorem parse_pot_line_examples_witness:
  "CHR '':'' \<notin> set ''no colon here'' \<and> parse_pot_line ''no colon here'' = None
   \<and> startswith ''# AABBCCDDEEFF:112233445566:MySSID:secretpw'' ''#''
   \<and> parse_pot_line ''# AABBCCDDEEFF:112233445566:MySSID:secretpw'' = None
   \<and> rstrip_chars [CHR 0x0D, CHR 0x0A] ''xx AP=001122aabbcc yy:pw'' \<noteq> []
   \<and> \<not> startswith (rstrip_chars [CHR 0x0D, CHR 0x0A] ''xx AP=001122aabbcc yy:pw'') ''#''
   \<and> parse_pot_line ''xx AP=001122aabbcc yy:pw'' = Some (''00:11:22:AA:BB:CC'', ''pw'')"
proof -
  have a: "CHR '':'' \<notin> set ''no colon here''" by simp
  have b: "startswith ''# AABBCCDDEEFF:112233445566:MySSID:secretpw'' ''#''"
    by (simp add: startswith_def)
  have c: "rstrip_chars [CHR 0x0D, CHR 0x0A] ''xx AP=001122aabbcc yy:pw'' \<noteq> []
     \<and> \<not> startswith (rstrip_chars [CHR 0x0D, CHR 0x0A] ''xx AP=001122aabbcc yy:pw'') ''#''"
    by (simp add: rstrip_chars_def startswith_def)
  have d: "parse_pot_line ''xx AP=001122aabbcc yy:pw'' = Some (''00:11:22:AA:BB:CC'', ''pw'')"
    by (simp add: pot_eval_defs)
  from parse_pot_line_examples a b c d show ?thesis by blast
qed

lemma colon_not_hex: "c \<in> set hexdigits_upper \<Longrightarrow> c \<noteq> CHR '':''"
  by (auto simp: hexdigits_upper_def)

lemma hex_to_mac_canonical:
  assumes ne: "hex_to_mac s0 \<noteq> []"
  shows "canonical_mac (hex_to_mac s0)"
proof -
  define s where "s = upper (strip s0)"
  have len: "length s = 12" and hex: "list_all (\<lambda>c. c \<in> set hexdigits_upper) s"
    using ne unfolding hex_to_mac_def s_def Let_def by (auto split: if_splits)
  define groups where "groups = map (\<lambda>i. slice i (i + 2) s) [0, 2, 4, 6, 8, 10]"
  have eq: "hex_to_mac s0 = join '':'' groups"
    using len hex unfolding hex_to_mac_def s_def[symmetric] Let_def groups_def by simp
  have sl_hex: "list_all (\<lambda>c. c \<in> set hexdigits_upper) (slice i j s)" for i j
    using hex unfolding slice_def list_all_iff by (meson in_set_takeD in_set_dropD)
  have sl_len: "j \<le> 12 \<Longrightarrow> length (slice i j s) = j - i" for i j
    using len unfolding slice_def by simp
  have g_hex: "list_all (\<lambda>g. length g = 2 \<and> list_all (\<lambda>c. c \<in> set hexdigits_upper) g) groups"
    unfolding groups_def using sl_hex sl_len by simp
  then have "list_all (\<lambda>g. CHR '':'' \<notin> set g) groups"
    using colon_not_hex by (auto simp: list_all_iff)
  moreover have "groups \<noteq> []" unfolding groups_def by simp
  ultimately have "split_char CHR '':'' (join '':'' groups) = groups"
    using split_char_join[of groups "CHR '':''"] by simp
  moreover have "length groups = 6" unfolding groups_def by simp
  ultimately show ?thesis
    unfolding canonical_mac_def mac_groups_def eq Let_def using g_hex by simp
qed

lemma pot_key_value_ok:
  "pot_key_value keys s = Some (a, p) \<Longrightarrow> canonical_mac a \<and> p \<noteq> []"
  by (induction keys) (auto simp: Let_def hex_to_mac_canonical split: option.splits if_splits)

lemma pot_short_form_ok: "pot_short_form ps = Some (a, p) \<Longrightarrow> canonical_mac a \<and> p \<noteq> []"
  unfolding pot_short_form_def by (auto simp: Let_def hex_to_mac_canonical split: if_splits)

lemma pot_plain_form_ok: "pot_plain_form ps = Some (a, p) \<Longrightarrow> canonical_mac a \<and> p \<noteq> []"
  unfolding pot_plain_form_def by (auto simp: Let_def hex_to_mac_canonical split: if_splits)

lemma pot_hash_line_ok: "pot_hash_line s = Some (a, p) \<Longrightarrow> canonical_mac a \<and> p \<noteq> []"
  unfolding pot_hash_line_def
  by (auto simp: Let_def hex_to_mac_canonical split: if_splits prod.splits)

text \<open>
  Claim C10. Whenever the parser returns a pair, whichever form matched, the password is
  not empty and the address is canonical: six groups of two uppercase hex digits joined
  by colons.
\<close>

theorem parse_pot_line_pair_wellformed:
  "parse_pot_line line = Some (a, p) \<Longrightarrow> p \<noteq> [] \<and> canonical_mac a"
  unfolding parse_pot_line_def or_else_def Let_def
  by (auto split: if_splits option.splits
      dest: pot_short_form_ok pot_plain_form_ok pot_hash_line_ok pot_key_value_ok)

theorem parse_pot_line_pair_wellformed_witness:
  "parse_pot_line ''WPA*01*PMKID*aabbccddeeff*112233445566*4d7953534944*00:pw''
     = Some (''AA:BB:CC:DD:EE:FF'', ''pw'')
   \<and> ''pw'' \<noteq> [] \<and> canonical_mac ''AA:BB:CC:DD:EE:FF''"
proof -
  have e: "parse_pot_line ''WPA*01*PMKID*aabbccddeeff*112233445566*4d7953534944*00:pw''
     = Some (''AA:BB:CC:DD:EE:FF'', ''pw'')"
    by (simp add: pot_eval_defs)
  from parse_pot_line_pair_wellformed[OF e] e show ?thesis by simp
qed

section \<open>Properties of the deduplicator\<close>

lemma map_of_dict_set: "map_of (dict_set best k v) k' = (if k' = k then Some v else map_of best k')"
  by (induction best k v rule: dict_set.induct) auto

lemma fst_dict_set: "set (map fst (dict_set best k v)) = insert k (set (map fst best))"
  by (induction best k v rule: dict_set.induct) auto

lemma distinct_dict_set: "distinct (map fst best) \<Longrightarrow> distinct (map fst (dict_set best k v))"
proof (induction best k v rule: dict_set.induct)
  case (1 k v) then show ?case by simp
next
  case (2 k' v' kvs k v)
  then show ?case using fst_dict_set[of kvs k v] by auto
qed

lemma distinct_dedup_loop: "distinct (map fst best) \<Longrightarrow> distinct (map fst (dedup_loop best pairs))"
  by (induction best pairs rule: dedup_loop.induct)
     (auto simp: Let_def distinct_dict_set split: option.splits)

lemma map_of_dedup_loop:
  "map_of (dedup_loop best pairs) k =
     (case map_of best k of
        Some cur \<Rightarrow> Some (if cur \<noteq> [] then cur else kept_password (passwords_for k pairs))
      | None \<Rightarrow> (case passwords_for k pairs of [] \<Rightarrow> None
                 | p # ps \<Rightarrow> Some (kept_password (p # ps))))"
proof (induction best pairs rule: dedup_loop.induct)
  case (1 best)
  then show ?case by (simp split: option.splits)
next
  case (2 best bssid pwd pairs)
  show ?case
  proof (cases "is_valid_bssid bssid")
    case False
    with 2 show ?thesis by (simp split: option.splits list.splits)
  next
    case True
    note v = this
    show ?thesis
    proof (cases "map_of best (upper bssid)")
      case None
      with v 2(2)[OF _ refl None] show ?thesis
        by (auto simp: map_of_dict_set split: option.splits list.splits)
    next
      case (Some cur)
      show ?thesis
      proof (cases "cur = [] \<and> pwd \<noteq> []")
        case True
        with v Some 2(3)[OF _ refl Some] show ?thesis
          by (auto simp: map_of_dict_set split: option.splits list.splits)
      next
        case False
        with v Some 2(4)[OF _ refl Some] show ?thesis
          by (auto simp: map_of_dict_set split: option.splits list.splits)
      qed
    qed
  qed
qed

lemmas dedup_eval_defs =
  dedup_cracked_def is_valid_bssid_def mac_groups_def hexdigits_def upper_def upper_char_def

text \<open>
  Claim C3. For every pair list and every address \<open>k\<close>, the deduplicator keeps one entry
  for \<open>k\<close> when a valid pair names it (in any letter case) and none otherwise; the
  password kept is the first-seen one, unless that one is empty, and then it is the first
  non-empty one that follows (empty when there is none). So a password that is kept and
  not empty is never replaced. The spec's three examples are evaluated.
\<close>

theorem dedup_cracked_keeps_first_nonempty:
  "map_of (dedup_cracked pairs) k =
     (case passwords_for k pairs of
        [] \<Rightarrow> None
      | p # ps \<Rightarrow> Some (if p \<noteq> [] then p else kept_password ps))
   \<and> distinct (map fst (dedup_cracked pairs))
   \<and> dedup_cracked [(''AA:BB:CC:DD:EE:FF'', []), (''AA:BB:CC:DD:EE:FF'', ''hunter2'')]
       = [(''AA:BB:CC:DD:EE:FF'', ''hunter2'')]
   \<and> dedup_cracked [(''AA:BB:CC:DD:EE:FF'', ''hunter2''), (''AA:BB:CC:DD:EE:FF'', [])]
       = [(''AA:BB:CC:DD:EE:FF'', ''hunter2'')]
   \<and> dedup_cracked [(''AA:BB:CC:DD:EE:FF'', ''first''), (''AA:BB:CC:DD:EE:FF'', ''second'')]
       = [(''AA:BB:CC:DD:EE:FF'', ''first'')]"
proof (intro conjI)
  show "map_of (dedup_cracked pairs) k =
     (case passwords_for k pairs of
        [] \<Rightarrow> None
      | p # ps \<Rightarrow> Some (if p \<noteq> [] then p else kept_password ps))"
    unfolding dedup_cracked_def map_of_dedup_loop by (simp split: list.splits)
  show "distinct (map fst (dedup_cracked pairs))"
    unfolding dedup_cracked_def by (rule distinct_dedup_loop) simp
  show "dedup_cracked [(''AA:BB:CC:DD:EE:FF'', []), (''AA:BB:CC:DD:EE:FF'', ''hunter2'')]
       = [(''AA:BB:CC:DD:EE:FF'', ''hunter2'')]"
    by (simp add: dedup_eval_defs)
  show "dedup_cracked [(''AA:BB:CC:DD:EE:FF'', ''hunter2''), (''AA:BB:CC:DD:EE:FF'', [])]
       = [(''AA:BB:CC:DD:EE:FF'', ''hunter2'')]"
    by (simp add: dedup_eval_defs)
  show "dedup_cracked [(''AA:BB:CC:DD:EE:FF'', ''first''), (''AA:BB:CC:DD:EE:FF'', ''second'')]
       = [(''AA:BB:CC:DD:EE:FF'', ''first'')]"
    by (simp add: dedup_eval_defs)
qed

theorem dedup_cracked_keeps_first_nonempty_witness:
  "passwords_for ''AA:BB:CC:DD:EE:FF''
      [(''aa:bb:cc:dd:ee:ff'', []), (''not a mac'', ''x''), (''AA:BB:CC:DD:EE:FF'', ''pw1''),
       (''Aa:Bb:Cc:Dd:Ee:Ff'', ''pw2'')] = [[], ''pw1'', ''pw2'']
   \<and> map_of (dedup_cracked
      [(''aa:bb:cc:dd:ee:ff'', []), (''not a mac'', ''x''), (''AA:BB:CC:DD:EE:FF'', ''pw1''),
       (''Aa:Bb:Cc:Dd:Ee:Ff'', ''pw2'')]) ''AA:BB:CC:DD:EE:FF'' = Some ''pw1''"
proof -
  have a: "passwords_for ''AA:BB:CC:DD:EE:FF''
      [(''aa:bb:cc:dd:ee:ff'', []), (''not a mac'', ''x''), (''AA:BB:CC:DD:EE:FF'', ''pw1''),
       (''Aa:Bb:Cc:Dd:Ee:Ff'', ''pw2'')] = [[], ''pw1'', ''pw2'']"
    by (simp add: dedup_eval_defs)
  from dedup_cracked_keeps_first_nonempty[of
      "[(''aa:bb:cc:dd:ee:ff'', []), (''not a mac'', ''x''), (''AA:BB:CC:DD:EE:FF'', ''pw1''),
       (''Aa:Bb:Cc:Dd:Ee:Ff'', ''pw2'')]" "''AA:BB:CC:DD:EE:FF''"] a
  show ?thesis by simp
qed

section \<open>Properties of the networks table\<close>

lemma fold_max_ge: "(a::int) \<le> fold max xs a"
  by (induction xs arbitrary: a) (auto intro: order_trans[OF max.cobounded2])

lemma fold_max_mem: "x \<in> set xs \<Longrightarrow> (x::int) \<le> fold max xs a"
proof (induction xs arbitrary: a)
  case Nil then show ?case by simp
next
  case (Cons y ys)
  show ?case
  proof (cases "x = y")
    case True
    have "y \<le> max y a" by simp
    also have "\<dots> \<le> fold max ys (max y a)" by (rule fold_max_ge)
    finally show ?thesis using True by simp
  next
    case False
    with Cons show ?thesis by simp
  qed
qed

lemma next_rowid_fresh: "(i, r) \<in> set (db_rows d) \<Longrightarrow> i < next_rowid d"
  unfolding next_rowid_def using fold_max_mem[of i "map fst (db_rows d)" "max 0 (db_seq d)"]
  by force

lemma next_rowid_pos: "0 < next_rowid d"
  unfolding next_rowid_def using fold_max_ge[of "max 0 (db_seq d)" "map fst (db_rows d)"] by simp

lemma next_rowid_seq: "db_seq d < next_rowid d"
  unfolding next_rowid_def using fold_max_ge[of "max 0 (db_seq d)" "map fst (db_rows d)"] by simp

lemma same_key_null:
  "net_bssid n = None \<or> net_date n = None \<or> net_time n = None \<Longrightarrow> \<not> same_key r n"
  unfolding same_key_def sql_eq_def by (auto split: option.splits)

lemma insert_null_column:
  assumes "net_bssid n = None \<or> net_date n = None \<or> net_time n = None"
  shows "insert_network_record d n =
           (d\<lparr>db_rows := db_rows d @ [(next_rowid d, n)], db_seq := next_rowid d\<rparr>, next_rowid d)"
proof -
  have "\<not> list_ex (\<lambda>(i, r). same_key r n) (db_rows d)"
    using same_key_null[OF assms] by (auto simp: list_ex_iff)
  then show ?thesis
    unfolding insert_network_record_def insert_or_ignore_def
    using next_rowid_pos[of d] by (simp add: Let_def)
qed

lemma fold_max_bounded: "list_all (\<lambda>x. x \<le> (m::int)) xs \<Longrightarrow> fold max xs m = m"
  by (induction xs) (auto simp: max_def)

lemma next_rowid_bump: "next_rowid (d\<lparr>db_seq := next_rowid d\<rparr>) = next_rowid d + 1"
proof -
  have a: "max 0 (next_rowid d) = next_rowid d"
    using next_rowid_pos[of d] by simp
  have "list_all (\<lambda>x. x \<le> next_rowid d) (map fst (db_rows d))"
    using next_rowid_fresh[of _ _ d] by (force simp: list_all_iff)
  then have b: "fold max (map fst (db_rows d)) (next_rowid d) = next_rowid d"
    by (rule fold_max_bounded)
  show ?thesis
    unfolding next_rowid_def[of "d\<lparr>db_seq := next_rowid d\<rparr>"] by (simp add: a b)
qed

lemma next_rowid_after:
  "next_rowid (d\<lparr>db_rows := db_rows d @ [(next_rowid d, n)], db_seq := next_rowid d\<rparr>)
     = next_rowid d + 1"
proof -
  have a: "max 0 (next_rowid d) = next_rowid d"
    using next_rowid_pos[of d] by simp
  have "list_all (\<lambda>x. x \<le> next_rowid d) (map fst (db_rows d))"
    using next_rowid_fresh[of _ _ d] by (force simp: list_all_iff)
  then have b: "fold max (map fst (db_rows d)) (next_rowid d) = next_rowid d"
    by (rule fold_max_bounded)
  show ?thesis
    unfolding next_rowid_def[of "d\<lparr>db_rows := db_rows d @ [(next_rowid d, n)], db_seq := next_rowid d\<rparr>"]
    by (simp add: a b)
qed

lemma same_key_cong:
  "net_bssid n' = net_bssid n \<Longrightarrow> net_date n' = net_date n \<Longrightarrow> net_time n' = net_time n
   \<Longrightarrow> same_key r n' = same_key r n"
  unfolding same_key_def by simp

lemma same_key_refl:
  "net_bssid n \<noteq> None \<Longrightarrow> net_date n \<noteq> None \<Longrightarrow> net_time n \<noteq> None \<Longrightarrow> same_key n n"
  unfolding same_key_def sql_eq_def by auto

lemma select_id_same_key:
  "select_id d (net_bssid n) (net_date n) (net_time n) =
     (case filter (\<lambda>(i, r). same_key r n) (db_rows d) of [] \<Rightarrow> None | (i, r) # _ \<Rightarrow> Some i)"
  unfolding select_id_def same_key_def by simp

lemma insert_conflict:
  assumes "filter (\<lambda>(i, r). same_key r n) (db_rows d) = (i, r) # rest"
  shows "insert_network_record d n = (d\<lparr>db_seq := next_rowid d\<rparr>, i)"
proof -
  have "(i, r) \<in> set (filter (\<lambda>(i, r). same_key r n) (db_rows d))" using assms by simp
  then have sk: "same_key r n" and mem: "(i, r) \<in> set (db_rows d)" by auto
  have ex: "list_ex (\<lambda>(i, r). same_key r n) (db_rows d)"
    using sk mem by (auto simp: list_ex_iff)
  have nn: "net_bssid n \<noteq> None"
    using sk unfolding same_key_def sql_eq_def by (auto split: option.splits)
  have sel: "select_id (d\<lparr>db_seq := next_rowid d\<rparr>) (net_bssid n) (net_date n) (net_time n) = Some i"
    using assms by (simp add: select_id_same_key)
  show ?thesis
    unfolding insert_network_record_def insert_or_ignore_def
    using ex nn sel by (simp add: Let_def)
qed

lemma insert_fresh:
  assumes "filter (\<lambda>(i, r). same_key r n) (db_rows d) = []"
  shows "insert_network_record d n =
           (d\<lparr>db_rows := db_rows d @ [(next_rowid d, n)], db_seq := next_rowid d\<rparr>, next_rowid d)"
proof -
  have "\<not> list_ex (\<lambda>(i, r). same_key r n) (db_rows d)"
    using assms by (auto simp: list_ex_iff filter_empty_conv)
  then show ?thesis
    unfolding insert_network_record_def insert_or_ignore_def
    using next_rowid_pos[of d] by (simp add: Let_def)
qed

lemma insert_twice_same_key:
  assumes k: "net_bssid n \<noteq> None" "net_date n \<noteq> None" "net_time n \<noteq> None"
    and e: "net_bssid n' = net_bssid n" "net_date n' = net_date n" "net_time n' = net_time n"
    and i: "insert_network_record d n = (d1, i1)"
  shows "insert_network_record d1 n' = (d1\<lparr>db_seq := next_rowid d1\<rparr>, i1)
         \<and> (\<exists>r. (i1, r) \<in> set (db_rows d1) \<and> same_key r n')"
proof (cases "filter (\<lambda>(i, r). same_key r n) (db_rows d)")
  case Nil
  have "(d1, i1) = (d\<lparr>db_rows := db_rows d @ [(next_rowid d, n)], db_seq := next_rowid d\<rparr>, next_rowid d)"
    using i insert_fresh[OF Nil] by metis
  then have d1: "d1 = d\<lparr>db_rows := db_rows d @ [(next_rowid d, n)], db_seq := next_rowid d\<rparr>"
    and i1: "i1 = next_rowid d" by blast+
  have f: "filter (\<lambda>(i, r). same_key r n') (db_rows d1) = (i1, n) # []"
    using Nil same_key_refl[OF k] unfolding d1 i1 same_key_cong[OF e] by simp
  have "(i1, n) \<in> set (db_rows d1)" unfolding d1 i1 by simp
  moreover have "same_key n n'" using same_key_refl[OF k] same_key_cong[OF e] by simp
  ultimately show ?thesis using insert_conflict[OF f] by blast
next
  case (Cons a rest)
  obtain j r where a: "a = (j, r)" by (cases a)
  have c: "filter (\<lambda>(i, r). same_key r n) (db_rows d) = (j, r) # rest" using Cons a by simp
  have "(d1, i1) = (d\<lparr>db_seq := next_rowid d\<rparr>, j)"
    using i insert_conflict[OF c] by metis
  then have d1: "d1 = d\<lparr>db_seq := next_rowid d\<rparr>" and i1: "i1 = j" by blast+
  have f: "filter (\<lambda>(i, r). same_key r n') (db_rows d1) = (i1, r) # rest"
    using c unfolding d1 i1 same_key_cong[OF e] by simp
  have "(i1, r) \<in> set (filter (\<lambda>(i, r). same_key r n') (db_rows d1))" unfolding f by simp
  then have "(i1, r) \<in> set (db_rows d1) \<and> same_key r n'" by auto
  then show ?thesis using insert_conflict[OF f] by blast
qed

lemma insert_twice_null:
  assumes "net_bssid n1 = None \<or> net_date n1 = None \<or> net_time n1 = None"
    and "net_bssid n2 = None \<or> net_date n2 = None \<or> net_time n2 = None"
    and "insert_network_record d n1 = (d1, i1)" "insert_network_record d1 n2 = (d2, i2)"
  shows "db_rows d2 = db_rows d @ [(i1, n1), (i2, n2)] \<and> i1 \<noteq> i2
         \<and> i1 \<notin> fst ` set (db_rows d) \<and> i2 \<notin> fst ` set (db_rows d)"
proof -
  have "(d1, i1) = (d\<lparr>db_rows := db_rows d @ [(next_rowid d, n1)], db_seq := next_rowid d\<rparr>, next_rowid d)"
    using assms(3) insert_null_column[OF assms(1), of d] by metis
  then have d1: "d1 = d\<lparr>db_rows := db_rows d @ [(next_rowid d, n1)], db_seq := next_rowid d\<rparr>"
    and i1: "i1 = next_rowid d" by blast+
  have "(d2, i2) = (d1\<lparr>db_rows := db_rows d1 @ [(next_rowid d1, n2)], db_seq := next_rowid d1\<rparr>, next_rowid d1)"
    using assms(4) insert_null_column[OF assms(2), of d1] by metis
  then have "d2 = d1\<lparr>db_rows := db_rows d1 @ [(next_rowid d1, n2)], db_seq := next_rowid d1\<rparr>"
    and i2: "i2 = next_rowid d1" by blast+
  then have d2: "db_rows d2 = db_rows d1 @ [(next_rowid d1, n2)]" by simp
  have n: "next_rowid d1 = next_rowid d + 1" unfolding d1 by (rule next_rowid_after)
  have fresh: "\<And>j. j \<in> fst ` set (db_rows d) \<Longrightarrow> j < next_rowid d"
    using next_rowid_fresh by force
  show ?thesis
    using fresh[of i1] fresh[of i2] unfolding d2 i2 n unfolding d1 i1 by auto
qed

text \<open>
  Claim C6, amended. The unique index on (address, date, time) fires only for a row whose
  address, date and time are all three non-null. Two inserts with a null address both
  store their row, each under a fresh id, whatever their date and time. A second insert
  with the same address, date and time, all three non-null, is ignored: the rows of the
  table are unchanged and the id returned is that of the row already stored. Two inserts
  with a null date or a null time both store their row, also when their address is the
  same and non-null.
\<close>

theorem insert_network_record_uniqueness:
  "(net_bssid n1 = None \<and> net_bssid n2 = None \<longrightarrow>
      (let (d1, i1) = insert_network_record d n1; (d2, i2) = insert_network_record d1 n2
       in db_rows d2 = db_rows d @ [(i1, n1), (i2, n2)] \<and> i1 \<noteq> i2
          \<and> i1 \<notin> fst ` set (db_rows d) \<and> i2 \<notin> fst ` set (db_rows d)))
   \<and> (net_bssid n \<noteq> None \<and> net_date n \<noteq> None \<and> net_time n \<noteq> None
       \<and> net_bssid n' = net_bssid n \<and> net_date n' = net_date n \<and> net_time n' = net_time n \<longrightarrow>
      (let (d1, i1) = insert_network_record d n; (d2, i2) = insert_network_record d1 n'
       in db_rows d2 = db_rows d1 \<and> i2 = i1
          \<and> (\<exists>r. (i1, r) \<in> set (db_rows d1) \<and> same_key r n')))
   \<and> ((net_date m1 = None \<or> net_time m1 = None) \<and> (net_date m2 = None \<or> net_time m2 = None) \<longrightarrow>
      (let (d1, i1) = insert_network_record d m1; (d2, i2) = insert_network_record d1 m2
       in db_rows d2 = db_rows d @ [(i1, m1), (i2, m2)] \<and> i1 \<noteq> i2
          \<and> i1 \<notin> fst ` set (db_rows d) \<and> i2 \<notin> fst ` set (db_rows d)))"
proof (intro conjI impI)
  assume a: "net_bssid n1 = None \<and> net_bssid n2 = None"
  obtain d1 i1 where r1: "insert_network_record d n1 = (d1, i1)" by fastforce
  obtain d2 i2 where r2: "insert_network_record d1 n2 = (d2, i2)" by fastforce
  from insert_twice_null[OF _ _ r1 r2] a
  show "let (d1, i1) = insert_network_record d n1; (d2, i2) = insert_network_record d1 n2
       in db_rows d2 = db_rows d @ [(i1, n1), (i2, n2)] \<and> i1 \<noteq> i2
          \<and> i1 \<notin> fst ` set (db_rows d) \<and> i2 \<notin> fst ` set (db_rows d)"
    by (simp add: r1 r2)
next
  assume a: "net_bssid n \<noteq> None \<and> net_date n \<noteq> None \<and> net_time n \<noteq> None
       \<and> net_bssid n' = net_bssid n \<and> net_date n' = net_date n \<and> net_time n' = net_time n"
  obtain d1 i1 where r1: "insert_network_record d n = (d1, i1)" by fastforce
  from insert_twice_same_key[OF _ _ _ _ _ _ r1, of n'] a
  show "let (d1, i1) = insert_network_record d n; (d2, i2) = insert_network_record d1 n'
       in db_rows d2 = db_rows d1 \<and> i2 = i1
          \<and> (\<exists>r. (i1, r) \<in> set (db_rows d1) \<and> same_key r n')"
    by (simp add: r1)
next
  assume a: "(net_date m1 = None \<or> net_time m1 = None) \<and> (net_date m2 = None \<or> net_time m2 = None)"
  obtain d1 i1 where r1: "insert_network_record d m1 = (d1, i1)" by fastforce
  obtain d2 i2 where r2: "insert_network_record d1 m2 = (d2, i2)" by fastforce
  from insert_twice_null[OF _ _ r1 r2] a
  show "let (d1, i1) = insert_network_record d m1; (d2, i2) = insert_network_record d1 m2
       in db_rows d2 = db_rows d @ [(i1, m1), (i2, m2)] \<and> i1 \<noteq> i2
          \<and> i1 \<notin> fst ` set (db_rows d) \<and> i2 \<notin> fst ` set (db_rows d)"
    by (simp add: r1 r2)
qed

lemmas db_eval_defs =
  insert_network_record_def insert_or_ignore_def select_id_def same_key_def sql_eq_def
  next_rowid_def example_row_def empty_db_def Let_def

text \<open>
  The claim as it stands fails for a row without a date: the second insert of the same
  non-null address, (null) date and time is stored under a new id.
\<close>

theorem insert_network_record_counterexample:
  "(let n = (example_row (Some ''AA:BB:CC:DD:EE:FF''))\<lparr>net_date := None\<rparr>;
        (d1, i1) = insert_network_record empty_db n;
        (d2, i2) = insert_network_record d1 n
    in net_bssid n = Some ''AA:BB:CC:DD:EE:FF'' \<and> i1 = 1 \<and> i2 = 2
       \<and> db_rows d2 = [(1, n), (2, n)])"
  by (simp add: db_eval_defs)

text \<open>
  An ignored insert uses up an id: after the row of id 1 has been sent twice more, the
  next new row is stored under id 4.
\<close>

lemma insert_ignored_advances_sequence:
  "(let a = example_row (Some ''AA:BB:CC:DD:EE:FF''); b = example_row (Some ''11:22:33:44:55:66'');
        (d1, i1) = insert_network_record empty_db a;
        (d2, i2) = insert_network_record d1 a;
        (d3, i3) = insert_network_record d2 a;
        (d4, i4) = insert_network_record d3 b
    in [i1, i2, i3, i4] = [1, 1, 1, 4] \<and> map db_seq [d1, d2, d3, d4] = [1, 2, 3, 4]
       \<and> db_rows d4 = [(1, a), (4, b)])"
  by (simp add: db_eval_defs)

theorem insert_network_record_uniqueness_witness:
  "net_bssid (example_row None) = None
   \<and> (let (d1, i1) = insert_network_record empty_db (example_row None);
           (d2, i2) = insert_network_record d1 (example_row None)
       in db_rows d2 = [(1, example_row None), (2, example_row None)] \<and> i1 = 1 \<and> i2 = 2)
   \<and> net_bssid (example_row (Some ''AA:BB:CC:DD:EE:FF'')) \<noteq> None
   \<and> net_date (example_row (Some ''AA:BB:CC:DD:EE:FF'')) \<noteq> None
   \<and> net_time (example_row (Some ''AA:BB:CC:DD:EE:FF'')) \<noteq> None
   \<and> (let (d1, i1) = insert_network_record empty_db (example_row (Some ''AA:BB:CC:DD:EE:FF''));
           (d2, i2) = insert_network_record d1 (example_row (Some ''AA:BB:CC:DD:EE:FF''))
       in i1 = 1 \<and> i2 = 1 \<and> db_rows d1 = [(1, example_row (Some ''AA:BB:CC:DD:EE:FF''))]
          \<and> db_rows d2 = db_rows d1)
   \<and> net_time ((example_row (Some ''AA:BB:CC:DD:EE:FF''))\<lparr>net_time := None\<rparr>) = None
   \<and> (let m = (example_row (Some ''AA:BB:CC:DD:EE:FF''))\<lparr>net_time := None\<rparr>;
           (d1, i1) = insert_network_record empty_db m;
           (d2, i2) = insert_network_record d1 m
       in db_rows d2 = [(1, m), (2, m)] \<and> i1 = 1 \<and> i2 = 2)"
proof -
  have a: "net_bssid (example_row None) = None"
    by (simp add: example_row_def)
  have b: "net_bssid (example_row (Some ''AA:BB:CC:DD:EE:FF'')) \<noteq> None
     \<and> net_date (example_row (Some ''AA:BB:CC:DD:EE:FF'')) \<noteq> None
     \<and> net_time (example_row (Some ''AA:BB:CC:DD:EE:FF'')) \<noteq> None"
    by (simp add: example_row_def)
  have c: "net_time ((example_row (Some ''AA:BB:CC:DD:EE:FF''))\<lparr>net_time := None\<rparr>) = None"
    by simp
  have e1: "insert_network_record empty_db (example_row None)
      = (\<lparr>db_rows = [(1, example_row None)], db_seq = 1\<rparr>, 1)"
    by (simp add: db_eval_defs)
  have e2: "insert_network_record \<lparr>db_rows = [(1, example_row None)], db_seq = 1\<rparr> (example_row None)
      = (\<lparr>db_rows = [(1, example_row None), (2, example_row None)], db_seq = 2\<rparr>, 2)"
    by (simp add: db_eval_defs)
  have e3: "insert_network_record empty_db (example_row (Some ''AA:BB:CC:DD:EE:FF''))
      = (\<lparr>db_rows = [(1, example_row (Some ''AA:BB:CC:DD:EE:FF''))], db_seq = 1\<rparr>, 1)"
    by (simp add: db_eval_defs)
  have e4: "insert_network_record empty_db ((example_row (Some ''AA:BB:CC:DD:EE:FF''))\<lparr>net_time := None\<rparr>)
      = (\<lparr>db_rows = [(1, (example_row (Some ''AA:BB:CC:DD:EE:FF''))\<lparr>net_time := None\<rparr>)], db_seq = 1\<rparr>, 1)"
    by (simp add: db_eval_defs)
  have e5: "insert_network_record
        \<lparr>db_rows = [(1, (example_row (Some ''AA:BB:CC:DD:EE:FF''))\<lparr>net_time := None\<rparr>)], db_seq = 1\<rparr>
        ((example_row (Some ''AA:BB:CC:DD:EE:FF''))\<lparr>net_time := None\<rparr>)
      = (\<lparr>db_rows = [(1, (example_row (Some ''AA:BB:CC:DD:EE:FF''))\<lparr>net_time := None\<rparr>),
                      (2, (example_row (Some ''AA:BB:CC:DD:EE:FF''))\<lparr>net_time := None\<rparr>)], db_seq = 2\<rparr>, 2)"
    by (simp add: db_eval_defs)
  from insert_network_record_uniqueness[of "example_row None" "example_row None" empty_db
      "example_row (Some ''AA:BB:CC:DD:EE:FF'')" "example_row (Some ''AA:BB:CC:DD:EE:FF'')"
      "(example_row (Some ''AA:BB:CC:DD:EE:FF''))\<lparr>net_time := None\<rparr>"
      "(example_row (Some ''AA:BB:CC:DD:EE:FF''))\<lparr>net_time := None\<rparr>"]
    a b c e1 e2 e3 e4 e5
  show ?thesis by (auto simp: Let_def split: prod.splits)
qed

section \<open>Properties of the download\<close>

lemma http_get_attempts_sent:
  "http_get_attempts k h url = (h1, res) \<Longrightarrow>
     \<exists>n. http_sent h1 = http_sent h @ replicate n (Get url [])"
proof (induction k arbitrary: h)
  case 0
  then show ?case by auto
next
  case (Suc k)
  define h' where "h' = h\<lparr>http_sent := http_sent h @ [Get url []]\<rparr>"
  have s: "http_sent h' = http_sent h @ replicate 1 (Get url [])" unfolding h'_def by simp
  show ?case
  proof (cases "http_net h (length (http_sent h)) (Get url [])")
    case Failed
    with Suc.prems have "http_get_attempts k h' url = (h1, res)"
      by (simp add: requests_get_def h'_def)
    from Suc.IH[OF this] obtain n where "http_sent h1 = http_sent h' @ replicate n (Get url [])" ..
    then have "http_sent h1 = http_sent h @ replicate (Suc n) (Get url [])"
      unfolding s by (simp add: replicate_app_Cons_same)
    then show ?thesis ..
  next
    case (Response r)
    show ?thesis
    proof (cases "raise_for_status r")
      case True
      with Response Suc.prems have "http_get_attempts k h' url = (h1, res)"
        by (simp add: requests_get_def h'_def)
      from Suc.IH[OF this] obtain n where "http_sent h1 = http_sent h' @ replicate n (Get url [])" ..
      then have "http_sent h1 = http_sent h @ replicate (Suc n) (Get url [])"
        unfolding s by (simp add: replicate_app_Cons_same)
      then show ?thesis ..
    next
      case False
      with Response Suc.prems have "h1 = h'" by (simp add: requests_get_def h'_def)
      then show ?thesis using s by blast
    qed
  qed
qed

lemma new_requests_primary:
  assumes "http_get_with_retry h url = (h1, res)"
  shows "length (http_sent h) \<le> length (http_sent h1)
     \<and> \<not> list_ex cookie_request (drop (length (http_sent h)) (http_sent h1))"
proof -
  from assms obtain n where "http_sent h1 = http_sent h @ replicate n (Get url [])"
    unfolding http_get_with_retry_def using http_get_attempts_sent by blast
  then show ?thesis by (auto simp: list_ex_iff cookie_request_def)
qed

text \<open>
  Claim C9, amended. The cookie fallback is requested exactly when the key is configured,
  the primary download succeeded, its body gave no pair, and the body looks like HTML or
  is shorter than 10 characters. So a body of at least 10 characters that does not look
  like HTML, and a body that gave a pair, are never followed by the fallback. The claim
  as stated fails: a short body such as \<open>hello\<close> is neither empty nor HTML-like, and the
  fallback is requested.
\<close>

theorem download_fallback_only_if_wanted:
  "list_ex cookie_request
      (drop (length (http_sent h)) (http_sent (fst (download_cracked_potfile st h))))
   = (wpasec_key st \<noteq> [] \<and>
      (case http_get_with_retry h (url_qs st) of
         (h1, Inl e) \<Rightarrow> False
       | (h1, Inr r) \<Rightarrow>
           parse_text (resp_text r) = []
           \<and> (looks_html (resp_text r) \<or> length (resp_text r) < 10)))"
proof (cases "wpasec_key st = []")
  case True
  then show ?thesis by (simp add: download_cracked_potfile_def)
next
  case False
  obtain h1 res where p: "http_get_with_retry h (url_qs st) = (h1, res)" by fastforce
  note n = new_requests_primary[OF p]
  show ?thesis
  proof (cases res)
    case (Inl e)
    with False p n show ?thesis by (simp add: download_cracked_potfile_def)
  next
    case (Inr r)
    show ?thesis
    proof (cases "fallback_wanted (parse_text (resp_text r)) (resp_text r)")
      case w: False
      then have "\<not> (parse_text (resp_text r) = []
           \<and> (looks_html (resp_text r) \<or> length (resp_text r) < 10))"
        by (simp add: fallback_wanted_def)
      with w False p n Inr show ?thesis
        by (simp add: download_cracked_potfile_def Let_def)
    next
      case w: True
      have c: "cookie_request (cookie_get st)"
        using False by (simp add: cookie_request_def cookie_get_def)
      have "http_sent (fst (download_cracked_potfile st h)) = http_sent h1 @ [cookie_get st]"
        using False p Inr w
        by (simp add: download_cracked_potfile_def Let_def requests_get_def
            split: http_outcome.splits)
      then have "list_ex cookie_request
         (drop (length (http_sent h)) (http_sent (fst (download_cracked_potfile st h))))"
        using n c by simp
      then show ?thesis using False p Inr w by (simp add: fallback_wanted_def)
    qed
  qed
qed

lemmas http_eval_defs =
  download_cracked_potfile_def http_get_with_retry_def requests_get_def raise_for_status_def
  url_qs_def cookie_get_def wpasec_base_def rstrip_chars_def numeral_3_eq_3
  example_settings_def example_http_def

lemma parse_text_hello: "parse_text ''hello'' = []"
proof -
  have "splitlines ''hello'' = [''hello'']"
    by (simp add: splitlines_def linebreaks_def)
  moreover have "parse_pot_line ''hello'' = None"
    by (rule parse_pot_line_no_colon) simp
  ultimately show ?thesis
    by (simp add: parse_text_def List.map_filter_def dedup_cracked_def)
qed

lemma parse_text_no_results: "parse_text ''no results yet'' = []"
proof -
  have "splitlines ''no results yet'' = [''no results yet'']"
    by (simp add: splitlines_def linebreaks_def)
  moreover have "parse_pot_line ''no results yet'' = None"
    by (rule parse_pot_line_no_colon) simp
  ultimately show ?thesis
    by (simp add: parse_text_def List.map_filter_def dedup_cracked_def)
qed

lemma not_html_hello: "\<not> looks_html ''hello''"
  by (simp add: looks_html_def lower_def lower_char_def startswith_def)

lemma not_html_no_results: "\<not> looks_html ''no results yet''"
  by (simp add: looks_html_def lower_def lower_char_def startswith_def)

lemma primary_example:
  "http_get_with_retry (example_http body) (url_qs example_settings)
     = (example_http body
          \<lparr>http_sent := [Get ''https://wpa-sec.stanev.org/?api&dl=1&key=k3y'' []]\<rparr>,
        Inr \<lparr>status_code = 200, resp_text = body\<rparr>)"
  by (simp add: http_eval_defs)

theorem download_fallback_counterexample:
  "snd (http_get_with_retry (example_http ''hello'') (url_qs example_settings))
     = Inr \<lparr>status_code = 200, resp_text = ''hello''\<rparr>
   \<and> ''hello'' \<noteq> [] \<and> \<not> looks_html ''hello''
   \<and> http_sent (fst (download_cracked_potfile example_settings (example_http ''hello'')))
     = [Get ''https://wpa-sec.stanev.org/?api&dl=1&key=k3y'' [],
        Get ''https://wpa-sec.stanev.org/?api&dl=1'' [(''key'', ''k3y'')]]"
proof -
  have k: "wpasec_key example_settings \<noteq> []" by (simp add: example_settings_def)
  have w: "fallback_wanted (parse_text ''hello'') ''hello''"
    by (simp add: fallback_wanted_def parse_text_hello)
  have c: "cookie_get example_settings = Get ''https://wpa-sec.stanev.org/?api&dl=1'' [(''key'', ''k3y'')]"
    by (simp add: cookie_get_def wpasec_base_def rstrip_chars_def example_settings_def)
  have "http_sent (fst (download_cracked_potfile example_settings (example_http ''hello'')))
     = [Get ''https://wpa-sec.stanev.org/?api&dl=1&key=k3y'' [],
        Get ''https://wpa-sec.stanev.org/?api&dl=1'' [(''key'', ''k3y'')]]"
    unfolding download_cracked_potfile_def primary_example
    using k w by (simp add: c requests_get_def example_http_def raise_for_status_def)
  then show ?thesis using not_html_hello by (simp add: primary_example)
qed

theorem download_fallback_only_if_wanted_witness:
  "snd (http_get_with_retry (example_http ''no results yet'') (url_qs example_settings))
     = Inr \<lparr>status_code = 200, resp_text = ''no results yet''\<rparr>
   \<and> \<not> length ''no results yet'' < 10 \<and> \<not> looks_html ''no results yet''
   \<and> \<not> list_ex cookie_request
        (http_sent (fst (download_cracked_potfile example_settings (example_http ''no results yet''))))"
proof -
  have c: "http_sent (example_http ''no results yet'') = []"
    by (simp add: example_http_def)
  from download_fallback_only_if_wanted[of "example_http ''no results yet''" example_settings]
    not_html_no_results c
  show ?thesis by (simp add: primary_example)
qed

section \<open>Properties of the password update\<close>

lemma update_password_unmatched:
  assumes "unmatched d bssid"
  shows "update_password d bssid pwd = (d, 0)"
proof -
  have f: "filter (\<lambda>(i, r). update_matches bssid r) (db_rows d) = []"
    using assms unfolding unmatched_def by (auto simp: list_all_iff filter_empty_conv)
  have "map (\<lambda>(i, r). if update_matches bssid r then (i, r\<lparr>net_password := Some pwd\<rparr>) else (i, r))
          (db_rows d) = db_rows d"
    using assms unfolding unmatched_def by (intro map_idI) (auto simp: list_all_iff)
  then show ?thesis unfolding update_password_def f by simp
qed

lemma update_matches_set_password:
  "sql_trim pwd \<noteq> [] \<Longrightarrow> \<not> update_matches b (r\<lparr>net_password := Some pwd\<rparr>)"
  unfolding update_matches_def sql_blank_def by simp

lemma update_password_makes_unmatched:
  assumes "sql_trim pwd \<noteq> []"
  shows "unmatched (fst (update_password d bssid pwd)) bssid"
  unfolding unmatched_def update_password_def
  by (auto simp: list_all_iff update_matches_set_password[OF assms] split: if_splits)

lemma update_password_keeps_unmatched:
  assumes "sql_trim pwd \<noteq> []" "unmatched d b"
  shows "unmatched (fst (update_password d bssid pwd)) b"
  using assms(2) unfolding unmatched_def update_password_def
  by (fastforce simp: list_all_iff update_matches_set_password[OF assms(1)] split: if_splits)

lemma bulk_update_loop_unmatched:
  assumes "list_all (\<lambda>(b, p). p = [] \<or> sql_trim p \<noteq> []) items"
    and "list_all (unmatched d) done"
  shows "list_all (unmatched (fst (bulk_update_loop d u items)))
           (done @ map fst (filter (\<lambda>(b, p). b \<noteq> [] \<and> p \<noteq> []) items))"
  using assms
proof (induction d u items arbitrary: "done" rule: bulk_update_loop.induct)
  case (1 d updated)
  then show ?case by simp
next
  case (2 d updated bssid pwd items)
  show ?case
  proof (cases "bssid = [] \<or> pwd = []")
    case True
    with 2 show ?thesis by auto
  next
    case False
    then have nb: "sql_trim pwd \<noteq> []" using "2.prems"(1) by auto
    obtain d' n where u: "update_password d bssid pwd = (d', n)" by fastforce
    have d': "d' = fst (update_password d bssid pwd)" using u by simp
    have "list_all (unmatched d') (done @ [bssid])"
      using "2.prems"(2) update_password_makes_unmatched[OF nb, of d bssid]
        update_password_keeps_unmatched[OF nb, of d _ bssid]
      unfolding d' by (auto simp: list_all_iff)
    from "2.IH"(2)[OF False u[symmetric] refl _ this] "2.prems"(1)
    have "list_all (unmatched (fst (bulk_update_loop d' (updated + n) items)))
           ((done @ [bssid]) @ map fst (filter (\<lambda>(b, p). b \<noteq> [] \<and> p \<noteq> []) items))"
      by simp
    then show ?thesis using False u by simp
  qed
qed

lemma bulk_update_loop_all_unmatched:
  assumes "list_all (unmatched d) (map fst (filter (\<lambda>(b, p). b \<noteq> [] \<and> p \<noteq> []) items))"
  shows "bulk_update_loop d u items = (d, u)"
  using assms
proof (induction d u items rule: bulk_update_loop.induct)
  case (1 d updated)
  then show ?case by simp
next
  case (2 d updated bssid pwd items)
  show ?case
  proof (cases "bssid = [] \<or> pwd = []")
    case True
    with 2 show ?thesis by auto
  next
    case False
    with "2.prems" have m: "unmatched d bssid" by simp
    from update_password_unmatched[OF m, of pwd] have u: "update_password d bssid pwd = (d, 0)" .
    from "2.IH"(2)[OF False u[symmetric] refl] "2.prems" False
    have "bulk_update_loop d (updated + 0) items = (d, updated + 0)" by simp
    then show ?thesis using False u by simp
  qed
qed

text \<open>
  When every password of the pair list is empty or has a character that is not a space,
  a second run with the same list changes nothing and counts no row: each row an
  \<open>UPDATE\<close> of the first run selected holds a password that is not blank afterwards.
\<close>

theorem bulk_update_passwords_second_run:
  assumes "list_all (\<lambda>(b, p). p = [] \<or> sql_trim p \<noteq> []) items"
  shows "bulk_update_passwords (fst (bulk_update_passwords d items)) items
           = (fst (bulk_update_passwords d items), 0)"
proof (cases "items = []")
  case True
  then show ?thesis by (simp add: bulk_update_passwords_def)
next
  case False
  from bulk_update_loop_unmatched[OF assms, of d "[]" 0]
  have "list_all (unmatched (fst (bulk_update_loop d 0 items)))
          (map fst (filter (\<lambda>(b, p). b \<noteq> [] \<and> p \<noteq> []) items))" by simp
  from bulk_update_loop_all_unmatched[OF this, of 0] False
  show ?thesis by (simp add: bulk_update_passwords_def)
qed

lemmas update_eval_defs =
  bulk_update_passwords_def update_password_def update_matches_def sql_norm_def sql_trim_def
  sql_blank_def upper_def upper_char_def rstrip_chars_def lstrip_chars_def Let_def
  stored_db_def example_row_def

theorem bulk_update_passwords_second_run_witness:
  "list_all (\<lambda>(b, p). p = [] \<or> sql_trim p \<noteq> []) [(''aa-bb-cc-dd-ee-ff'', ''hunter2'')]
   \<and> bulk_update_passwords (stored_db None) [(''aa-bb-cc-dd-ee-ff'', ''hunter2'')]
       = (stored_db (Some ''hunter2''), 1)
   \<and> bulk_update_passwords (stored_db (Some ''hunter2'')) [(''aa-bb-cc-dd-ee-ff'', ''hunter2'')]
       = (stored_db (Some ''hunter2''), 0)"
proof -
  have a: "list_all (\<lambda>(b, p). p = [] \<or> sql_trim p \<noteq> []) [(''aa-bb-cc-dd-ee-ff'', ''hunter2'')]"
    by (simp add: sql_trim_def rstrip_chars_def lstrip_chars_def)
  have b: "bulk_update_passwords (stored_db None) [(''aa-bb-cc-dd-ee-ff'', ''hunter2'')]
       = (stored_db (Some ''hunter2''), 1)"
    by (simp add: update_eval_defs)
  from bulk_update_passwords_second_run[OF a, of "stored_db None"] a b
  show ?thesis by simp
qed

text \<open>
  Claim C2. The update selects the rows whose stored address, trimmed, upper-cased and
  without \<open>:\<close> and \<open>-\<close>, equals the pair's and whose password is null or blank, and
  writes the pair's password; the pair is skipped only when its password is empty. A
  password of spaces is written as it is and the row stays blank for the next run: with
  the potfile line \<open>AABBCCDDEEFF:112233445566:MySSID:\<close> followed by eight spaces, the
  second run with the same pair list counts the row again.
\<close>

theorem bulk_update_passwords_blank_rerun:
  "parse_text ''AABBCCDDEEFF:112233445566:MySSID:        ''
     = [(''AA:BB:CC:DD:EE:FF'', ''        '')]
   \<and> bulk_update_passwords (stored_db None) [(''AA:BB:CC:DD:EE:FF'', ''        '')]
       = (stored_db (Some ''        ''), 1)
   \<and> bulk_update_passwords (stored_db (Some ''        '')) [(''AA:BB:CC:DD:EE:FF'', ''        '')]
       = (stored_db (Some ''        ''), 1)"
proof -
  have "splitlines ''AABBCCDDEEFF:112233445566:MySSID:        ''
      = [''AABBCCDDEEFF:112233445566:MySSID:        '']"
    by (simp add: splitlines_def linebreaks_def)
  moreover have "parse_pot_line ''AABBCCDDEEFF:112233445566:MySSID:        ''
      = Some (''AA:BB:CC:DD:EE:FF'', ''        '')"
    by (simp add: pot_eval_defs)
  ultimately have "parse_text ''AABBCCDDEEFF:112233445566:MySSID:        ''
     = [(''AA:BB:CC:DD:EE:FF'', ''        '')]"
    by (simp add: parse_text_def List.map_filter_def dedup_eval_defs)
  moreover have "bulk_update_passwords (stored_db None) [(''AA:BB:CC:DD:EE:FF'', ''        '')]
       = (stored_db (Some ''        ''), 1)"
    by (simp add: update_eval_defs)
  moreover have "bulk_update_passwords (stored_db (Some ''        ''))
        [(''AA:BB:CC:DD:EE:FF'', ''        '')] = (stored_db (Some ''        ''), 1)"
    by (simp add: update_eval_defs)
  ultimately show ?thesis by simp
qed

section \<open>Properties of the vendor lookup\<close>

lemma vendor_lookup_short: "length (normalized_mac b) < 9 \<Longrightarrow> vendor_lookup m b = None"
  by (simp add: vendor_lookup_def Let_def)

lemma vendor_lookup_long:
  "9 \<le> length (normalized_mac b) \<Longrightarrow>
     vendor_lookup m b = try_prefixes m (normalized_mac b) [9, 7, 6]"
  by (auto simp: vendor_lookup_def Let_def normalized_mac_def upper_def)

text \<open>
  Claim C5, amended. An address with fewer than 9 hex digits resolves to no vendor. For
  an address of at least 9 hex digits the prefixes of length 9, 7 and 6 are tried in that
  order and the first hit is returned, where an entry whose vendor name is empty is no
  hit: when a 36-bit entry with a non-empty vendor name and a 24-bit entry both match,
  the 36-bit entry's vendor is returned; when the 36-bit entry is missing or has an empty
  name, a 28-bit entry with a non-empty name is returned. The claim as stated fails on a
  36-bit entry with an empty vendor name: the lookup passes over it and returns the
  24-bit entry's vendor.
\<close>

theorem vendor_for_bssid_longest_prefix:
  "(length (normalized_mac b) < 9 \<longrightarrow> snd (vendor_for_bssid st csv b) = None)
   \<and> (9 \<le> length (normalized_mac b)
       \<and> oui_map_by_len (oui_load st csv) 9 (take 9 (normalized_mac b)) = Some v9 \<and> v9 \<noteq> []
       \<and> oui_map_by_len (oui_load st csv) 6 (take 6 (normalized_mac b)) = Some v6
       \<longrightarrow> snd (vendor_for_bssid st csv b) = Some v9)
   \<and> (9 \<le> length (normalized_mac b)
       \<and> (oui_map_by_len (oui_load st csv) 9 (take 9 (normalized_mac b)) = None
          \<or> oui_map_by_len (oui_load st csv) 9 (take 9 (normalized_mac b)) = Some [])
       \<and> oui_map_by_len (oui_load st csv) 7 (take 7 (normalized_mac b)) = Some v7 \<and> v7 \<noteq> []
       \<longrightarrow> snd (vendor_for_bssid st csv b) = Some v7)"
  by (auto simp: vendor_for_bssid_def Let_def vendor_lookup_short vendor_lookup_long)

lemmas oui_eval_defs =
  vendor_for_bssid_def oui_load_def oui_initial_def example_csv_def vendor_lookup_def
  normalized_mac_def upper_def upper_char_def strip_def lstrip_chars_def rstrip_chars_def
  whitespace_def hexdigits_upper_def startswith_def Let_def

theorem vendor_for_bssid_counterexample:
  "oui_map_by_len (oui_load oui_initial (Some example_csv)) 9 (take 9 (normalized_mac ''AABBCCDDEEFF''))
     = Some []
   \<and> oui_map_by_len (oui_load oui_initial (Some example_csv)) 6 (take 6 (normalized_mac ''AABBCCDDEEFF''))
     = Some ''Acme''
   \<and> snd (vendor_for_bssid oui_initial (Some example_csv) ''AABBCCDDEEFF'') = Some ''Acme''"
  by (simp add: oui_eval_defs)

theorem vendor_for_bssid_longest_prefix_witness:
  "length (normalized_mac ''11223344'') < 9
   \<and> snd (vendor_for_bssid oui_initial (Some example_csv) ''11223344'') = None
   \<and> 9 \<le> length (normalized_mac ''112233445566'')
   \<and> oui_map_by_len (oui_load oui_initial (Some example_csv)) 9 (take 9 (normalized_mac ''112233445566''))
     = Some ''Narrow''
   \<and> oui_map_by_len (oui_load oui_initial (Some example_csv)) 6 (take 6 (normalized_mac ''112233445566''))
     = Some ''Old''
   \<and> snd (vendor_for_bssid oui_initial (Some example_csv) ''112233445566'') = Some ''Narrow''"
proof -
  have a: "length (normalized_mac ''11223344'') < 9"
    by (simp add: normalized_mac_def upper_def upper_char_def hexdigits_upper_def)
  have b: "9 \<le> length (normalized_mac ''112233445566'')"
    by (simp add: normalized_mac_def upper_def upper_char_def hexdigits_upper_def)
  have c: "oui_map_by_len (oui_load oui_initial (Some example_csv)) 9 (take 9 (normalized_mac ''112233445566''))
     = Some ''Narrow''"
    by (simp add: oui_eval_defs)
  have d: "oui_map_by_len (oui_load oui_initial (Some example_csv)) 6 (take 6 (normalized_mac ''112233445566''))
     = Some ''Old''"
    by (simp add: oui_eval_defs)
  have e: "''Narrow'' \<noteq> []" by simp
  from vendor_for_bssid_longest_prefix[of "''11223344''" oui_initial "Some example_csv"] a
  have f: "snd (vendor_for_bssid oui_initial (Some example_csv) ''11223344'') = None" by blast
  from vendor_for_bssid_longest_prefix[of "''112233445566''" oui_initial "Some example_csv"
      "''Narrow''" "''Old''"] b c d e
  have "snd (vendor_for_bssid oui_initial (Some example_csv) ''112233445566'') = Some ''Narrow''"
    by blast
  with a b c d f show ?thesis by blast
qed

section \<open>Properties of the hash-capture extraction\<close>

lemma rstrip_chars_keep:
  assumes "x \<notin> set cs"
  shows "rstrip_chars cs (xs @ x # ys) = xs @ x # rstrip_chars cs ys"
proof (cases "list_all (\<lambda>c. c \<in> set cs) ys")
  case True
  then have "dropWhile (\<lambda>c. c \<in> set cs) (rev ys @ x # rev xs) = x # rev xs"
    using assms by (simp add: dropWhile_append list_all_iff)
  moreover have "dropWhile (\<lambda>c. c \<in> set cs) (rev ys) = []"
    using True by (simp add: list_all_iff)
  ultimately show ?thesis unfolding rstrip_chars_def by simp
next
  case False
  then have "dropWhile (\<lambda>c. c \<in> set cs) (rev ys @ x # rev xs)
      = dropWhile (\<lambda>c. c \<in> set cs) (rev ys) @ x # rev xs"
    by (auto simp: dropWhile_append list_all_iff)
  then show ?thesis unfolding rstrip_chars_def by simp
qed

lemma startswith_strip:
  assumes "startswith first_line ''WPA*''"
  shows "startswith (strip first_line) ''WPA*''"
proof -
  from assms have "take (length ''WPA*'') first_line = ''WPA*''"
    unfolding startswith_def .
  then have "first_line = ''WPA*'' @ drop (length ''WPA*'') first_line"
    by (metis append_take_drop_id)
  then obtain rest where l: "first_line = ''WPA'' @ CHR ''*'' # rest" by auto
  have a: "lstrip_chars whitespace first_line = first_line"
    unfolding l lstrip_chars_def whitespace_def by simp
  have "CHR ''*'' \<notin> set whitespace" by (simp add: whitespace_def)
  from rstrip_chars_keep[OF this, of "''WPA''" rest]
  have "rstrip_chars whitespace first_line = ''WPA'' @ CHR ''*'' # rstrip_chars whitespace rest"
    unfolding l .
  then show ?thesis unfolding strip_def a by (simp add: startswith_def)
qed

lemma first_wpa_line_startswith:
  "first_wpa_line txt = Some first_line \<Longrightarrow> startswith first_line ''WPA*''"
  unfolding first_wpa_line_def by (auto simp: find_Some_iff)

lemma first_wpa_line_nonempty: "first_wpa_line txt = Some first_line \<Longrightarrow> txt \<noteq> []"
  unfolding first_wpa_line_def splitlines_def by auto

lemma convert_ok:
  assumes "pcap_exists run" "returncode run = 0" "out_exists run"
    and "first_wpa_line (strip (out_text run)) = Some first_line"
  shows "convert_pcap_to_hc22000_and_meta run =
          (case parse_22000_line first_line of Inl e \<Rightarrow> Inl e | Inr meta \<Rightarrow> Inr (meta_of_line meta))"
  using assms first_wpa_line_nonempty[OF assms(4)]
  by (simp add: convert_pcap_to_hc22000_and_meta_def Let_def)

lemma parse_22000_line_variant:
  "parse_22000_line first_line = Inr meta \<Longrightarrow>
     hl_hash_type meta = ''WPA'' \<and> (hl_variant meta = ''PMKID'' \<or> hl_variant meta = ''EAPOL'')"
  unfolding parse_22000_line_def by (auto simp: Let_def split: if_splits)

text \<open>
  Claim C8. When the converter ran, its first \<open>WPA*\<close> line parses, and the address field
  of that line, without \<open>:\<close> and \<open>-\<close> and lower-cased, is not 12 hex digits, the
  extraction still returns a record: its address is null, its network name, hash family
  and variant are those of the line.
\<close>

theorem convert_invalid_address_still_returns:
  assumes "pcap_exists run" "returncode run = 0" "out_exists run"
    and "first_wpa_line (strip (out_text run)) = Some first_line"
    and "parse_22000_line first_line = Inr meta"
    and "\<not> (length (lower (filter (\<lambda>c. c \<noteq> CHR ''-'') (filter (\<lambda>c. c \<noteq> CHR '':'') (hl_bssid meta)))) = 12
           \<and> list_all (\<lambda>c. c \<in> set hexdigits_lower)
                (lower (filter (\<lambda>c. c \<noteq> CHR ''-'') (filter (\<lambda>c. c \<noteq> CHR '':'') (hl_bssid meta)))))"
  shows "convert_pcap_to_hc22000_and_meta run =
           Inr \<lparr>hc_ssid = (if hl_ssid meta \<noteq> [] then Some (hl_ssid meta) else None),
                hc_bssid = None, hc_type = ''WPA'', hc_variant = hl_variant meta\<rparr>
         \<and> (hl_variant meta = ''PMKID'' \<or> hl_variant meta = ''EAPOL'')"
proof -
  have b: "bssid_hex12_of (hl_bssid meta) = []"
    using assms(6) unfolding bssid_hex12_of_def Let_def by auto
  from parse_22000_line_variant[OF assms(5)]
  have v: "hl_variant meta = ''PMKID'' \<or> hl_variant meta = ''EAPOL''" by simp
  then have "hl_variant meta \<noteq> []" by auto
  then have "meta_of_line meta =
      \<lparr>hc_ssid = (if hl_ssid meta \<noteq> [] then Some (hl_ssid meta) else None),
       hc_bssid = None, hc_type = ''WPA'', hc_variant = hl_variant meta\<rparr>"
    unfolding meta_of_line_def Let_def b by simp
  then show ?thesis
    using convert_ok[OF assms(1-4)] assms(5) v by simp
qed

lemmas ingest_eval_defs =
  first_wpa_line_def splitlines_def linebreaks_def strip_def lstrip_chars_def rstrip_chars_def
  whitespace_def startswith_def converter_ok_def

lemmas hash_line_eval_defs =
  parse_22000_line_def strip_def lstrip_chars_def rstrip_chars_def whitespace_def
  startswith_def decode_essid_def is_hex_def hexdigits_def hexval_def continuation_def
  unicode_of_def Let_def

lemma first_wpa_line_pmkid_example:
  "first_wpa_line (strip (out_text (converter_ok ''WPA*01*00ff*zz:zz*112233445566*4d7953534944***'')))
     = Some ''WPA*01*00ff*zz:zz*112233445566*4d7953534944***''"
  by (simp add: ingest_eval_defs)

lemma parse_pmkid_example:
  "parse_22000_line ''WPA*01*00ff*zz:zz*112233445566*4d7953534944***''
     = Inr \<lparr>hl_kind = ''PMKID'', hl_bssid = ''zz:zz'', hl_station = ''112233445566'',
            hl_ssid = [77, 121, 83, 83, 73, 68], hl_hash_type = ''WPA'', hl_variant = ''PMKID''\<rparr>"
  by (simp add: hash_line_eval_defs)

theorem convert_invalid_address_still_returns_witness:
  "convert_pcap_to_hc22000_and_meta (converter_ok ''WPA*01*00ff*zz:zz*112233445566*4d7953534944***'')
     = Inr \<lparr>hc_ssid = Some (unicode_of ''MySSID''), hc_bssid = None, hc_type = ''WPA'',
            hc_variant = ''PMKID''\<rparr>"
proof -
  have f: "\<not> (length (lower (filter (\<lambda>c. c \<noteq> CHR ''-'') (filter (\<lambda>c. c \<noteq> CHR '':'') ''zz:zz''))) = 12
           \<and> list_all (\<lambda>c. c \<in> set hexdigits_lower)
                (lower (filter (\<lambda>c. c \<noteq> CHR ''-'') (filter (\<lambda>c. c \<noteq> CHR '':'') ''zz:zz''))))"
    by (simp add: lower_def)
  have r: "pcap_exists (converter_ok t) \<and> returncode (converter_ok t) = 0 \<and> out_exists (converter_ok t)" for t
    by (simp add: converter_ok_def)
  from convert_invalid_address_still_returns[OF _ _ _ first_wpa_line_pmkid_example parse_pmkid_example]
    f r
  show ?thesis by (simp add: unicode_of_def)
qed

section \<open>Properties of the location-document parser\<close>

lemma required_missing_obj:
  "required_missing (JObj kv) =
     Inr (map_of kv ''Updated'' = None \<or> map_of kv ''Latitude'' = None \<or> map_of kv ''Longitude'' = None)"
  by (auto simp: required_missing_def json_in_def bind_def)

lemma parse_gps_json_obj_missing:
  "map_of kv ''Updated'' = None \<or> map_of kv ''Latitude'' = None \<or> map_of kv ''Longitude'' = None \<Longrightarrow>
     parse_gps_json lib (Inr (JObj kv))
       = Inl (ValueError ''Missing one of required keys: Updated, Latitude, Longitude'')"
  by (simp add: parse_gps_json_def parse_gps_data_def required_missing_obj bind_def)

lemma parse_gps_json_obj_present:
  "map_of kv ''Updated'' = Some u \<Longrightarrow> map_of kv ''Latitude'' = Some la \<Longrightarrow>
   map_of kv ''Longitude'' = Some lo \<Longrightarrow>
     parse_gps_json lib (Inr (JObj kv)) =
       bind (parse_updated_datetime lib (py_str lib u)) (\<lambda>dt.
       bind (py_float lib la) (\<lambda>lat.
       bind (py_float lib lo) (\<lambda>lon.
       bind (optional_float lib (map_of kv ''Altitude'')) (\<lambda>alt.
       bind (optional_float lib (map_of kv ''Accuracy'')) (\<lambda>acc.
         Inr \<lparr>gps_datetime = dt, gps_latitude = lat, gps_longitude = lon,
              gps_altitude = map_option (round2 lib) alt, gps_accuracy = acc\<rparr>)))))"
  by (simp add: parse_gps_json_def parse_gps_data_def required_missing_obj bind_def
        parse_gps_fields_def)

lemma timestamp_unrecognised_raises:
  "timestamp_unrecognised lib s \<Longrightarrow>
     parse_updated_datetime lib s = Inl (ValueError (''Unrecognized Updated datetime format: '' @ s))"
  by (simp add: timestamp_unrecognised_def parse_updated_datetime_def Let_def)

lemma timestamp_recognised_returns:
  "\<not> timestamp_unrecognised lib s \<Longrightarrow> \<exists>dt. parse_updated_datetime lib s = Inr dt"
  by (auto simp: timestamp_unrecognised_def parse_updated_datetime_def Let_def
           split: option.splits)

lemma py_float_not_numeric:
  "not_numeric lib v \<Longrightarrow> \<exists>m. py_float lib v = Inl (ValueError m)"
  by (cases v) (simp_all add: not_numeric_def py_float_def)

lemma py_float_numeric:
  "float_input lib v \<Longrightarrow> \<not> not_numeric lib v \<Longrightarrow> \<exists>x. py_float lib v = Inr x"
  by (cases v) (auto simp: float_input_def not_numeric_def py_float_def split: option.splits)

lemma optional_float_not_numeric:
  "not_numeric lib v \<Longrightarrow> \<exists>m. optional_float lib (Some v) = Inl (ValueError m)"
  using py_float_not_numeric[of lib v]
  by (cases v) (auto simp: optional_float_def bind_def not_numeric_def)

lemma optional_float_absent:
  "optional_float lib None = Inr None" "optional_float lib (Some JNull) = Inr None"
  by (simp_all add: optional_float_def)

lemma optional_float_present:
  "v \<noteq> JNull \<Longrightarrow> py_float lib v = Inr x \<Longrightarrow> optional_float lib (Some v) = Inr (Some x)"
  by (cases v) (simp_all add: optional_float_def bind_def)

lemma optional_float_returns:
  assumes "case w of None \<Rightarrow> True | Some v \<Rightarrow> v = JNull \<or> float_input lib v"
    and "\<not> (\<exists>v. w = Some v \<and> not_numeric lib v)"
  shows "\<exists>a. optional_float lib w = Inr a
           \<and> (w = None \<or> w = Some JNull \<longrightarrow> a = None)
           \<and> (\<forall>v. w = Some v \<and> v \<noteq> JNull \<longrightarrow> (\<exists>x. py_float lib v = Inr x \<and> a = Some x))"
proof (cases w)
  case None
  then show ?thesis by (simp add: optional_float_absent)
next
  case (Some v)
  show ?thesis
  proof (cases "v = JNull")
    case True
    then show ?thesis using Some by (simp add: optional_float_absent)
  next
    case False
    then have "float_input lib v" and "\<not> not_numeric lib v" using assms Some by auto
    then obtain x where "py_float lib v = Inr x" using py_float_numeric by blast
    then show ?thesis using Some False optional_float_present[of v lib x] by simp
  qed
qed

lemma bind_Inl: "r = Inl e \<Longrightarrow> bind r f = Inl e"
  by (simp add: bind_def)

lemma bind_Inr: "r = Inr x \<Longrightarrow> bind r f = f x"
  by (simp add: bind_def)

lemma gps_fields_fail:
  assumes la: "float_input lib la" and lo: "float_input lib lo"
    and al: "case al of None \<Rightarrow> True | Some v \<Rightarrow> v = JNull \<or> float_input lib v"
    and d: "timestamp_unrecognised lib s \<or> not_numeric lib la \<or> not_numeric lib lo
            \<or> (\<exists>v. al = Some v \<and> not_numeric lib v) \<or> (\<exists>v. ac = Some v \<and> not_numeric lib v)"
  shows "\<exists>m. bind (parse_updated_datetime lib s) (\<lambda>dt.
       bind (py_float lib la) (\<lambda>lat.
       bind (py_float lib lo) (\<lambda>lon.
       bind (optional_float lib al) (\<lambda>alt.
       bind (optional_float lib ac) (\<lambda>acc.
         Inr \<lparr>gps_datetime = dt, gps_latitude = lat, gps_longitude = lon,
              gps_altitude = map_option (round2 lib) alt, gps_accuracy = acc\<rparr>))))) = Inl (ValueError m)"
proof (cases "timestamp_unrecognised lib s")
  case True
  show ?thesis by (simp add: timestamp_unrecognised_raises[OF True] bind_def)
next
  case ts: False
  obtain dt where dt: "parse_updated_datetime lib s = Inr dt"
    using timestamp_recognised_returns[OF ts] by blast
  show ?thesis
  proof (cases "not_numeric lib la")
    case True
    obtain m where m: "py_float lib la = Inl (ValueError m)"
      using py_float_not_numeric[OF True] by blast
    show ?thesis by (simp add: bind_Inr[OF dt] bind_Inl[OF m])
  next
    case nla: False
    obtain lat where lat: "py_float lib la = Inr lat"
      using py_float_numeric[OF la nla] by blast
    show ?thesis
    proof (cases "not_numeric lib lo")
      case True
      obtain m where m: "py_float lib lo = Inl (ValueError m)"
        using py_float_not_numeric[OF True] by blast
      show ?thesis by (simp add: bind_Inr[OF dt] bind_Inr[OF lat] bind_Inl[OF m])
    next
      case nlo: False
      obtain lon where lon: "py_float lib lo = Inr lon"
        using py_float_numeric[OF lo nlo] by blast
      show ?thesis
      proof (cases "\<exists>v. al = Some v \<and> not_numeric lib v")
        case True
        then obtain v where v: "al = Some v" "not_numeric lib v" by blast
        obtain m where m: "optional_float lib al = Inl (ValueError m)"
          using optional_float_not_numeric[OF v(2)] v(1) by blast
        show ?thesis
          by (simp add: bind_Inr[OF dt] bind_Inr[OF lat] bind_Inr[OF lon] bind_Inl[OF m])
      next
        case nal: False
        obtain alt where alt: "optional_float lib al = Inr alt"
          using optional_float_returns[OF al nal] by (elim exE conjE) (rule that; assumption)
        from d ts nla nlo nal obtain v where v: "ac = Some v" "not_numeric lib v" by blast
        obtain m where m: "optional_float lib ac = Inl (ValueError m)"
          using optional_float_not_numeric[OF v(2)] v(1) by blast
        show ?thesis
          by (simp add: bind_Inr[OF dt] bind_Inr[OF lat] bind_Inr[OF lon] bind_Inr[OF alt]
                bind_Inl[OF m])
      qed
    qed
  qed
qed

lemma gps_fields_return:
  assumes la: "float_input lib la" and lo: "float_input lib lo"
    and al: "case al of None \<Rightarrow> True | Some v \<Rightarrow> v = JNull \<or> float_input lib v"
    and ac: "case ac of None \<Rightarrow> True | Some v \<Rightarrow> v = JNull \<or> float_input lib v"
    and ts: "\<not> timestamp_unrecognised lib s"
    and nla: "\<not> not_numeric lib la" and nlo: "\<not> not_numeric lib lo"
    and nal: "\<not> (\<exists>v. al = Some v \<and> not_numeric lib v)"
    and nac: "\<not> (\<exists>v. ac = Some v \<and> not_numeric lib v)"
  shows "\<exists>g. bind (parse_updated_datetime lib s) (\<lambda>dt.
       bind (py_float lib la) (\<lambda>lat.
       bind (py_float lib lo) (\<lambda>lon.
       bind (optional_float lib al) (\<lambda>alt.
       bind (optional_float lib ac) (\<lambda>acc.
         Inr \<lparr>gps_datetime = dt, gps_latitude = lat, gps_longitude = lon,
              gps_altitude = map_option (round2 lib) alt, gps_accuracy = acc\<rparr>))))) = Inr g
     \<and> parse_updated_datetime lib s = Inr (gps_datetime g)
     \<and> py_float lib la = Inr (gps_latitude g)
     \<and> py_float lib lo = Inr (gps_longitude g)
     \<and> (al = None \<or> al = Some JNull \<longrightarrow> gps_altitude g = None)
     \<and> (\<forall>v. al = Some v \<and> v \<noteq> JNull \<longrightarrow>
           (\<exists>x. py_float lib v = Inr x \<and> gps_altitude g = Some (round2 lib x)))
     \<and> (ac = None \<or> ac = Some JNull \<longrightarrow> gps_accuracy g = None)
     \<and> (\<forall>v. ac = Some v \<and> v \<noteq> JNull \<longrightarrow>
           (\<exists>x. py_float lib v = Inr x \<and> gps_accuracy g = Some x))"
proof -
  obtain dt where dt: "parse_updated_datetime lib s = Inr dt"
    using timestamp_recognised_returns[OF ts] by blast
  obtain lat where lat: "py_float lib la = Inr lat"
    using py_float_numeric[OF la nla] by blast
  obtain lon where lon: "py_float lib lo = Inr lon"
    using py_float_numeric[OF lo nlo] by blast
  obtain alt where alt: "optional_float lib al = Inr alt"
    and alt_absent: "al = None \<or> al = Some JNull \<longrightarrow> alt = None"
    and alt_present: "\<forall>v. al = Some v \<and> v \<noteq> JNull \<longrightarrow> (\<exists>x. py_float lib v = Inr x \<and> alt = Some x)"
    using optional_float_returns[OF al nal] by (elim exE conjE) (rule that; assumption)
  obtain acc where acc: "optional_float lib ac = Inr acc"
    and acc_absent: "ac = None \<or> ac = Some JNull \<longrightarrow> acc = None"
    and acc_present: "\<forall>v. ac = Some v \<and> v \<noteq> JNull \<longrightarrow> (\<exists>x. py_float lib v = Inr x \<and> acc = Some x)"
    using optional_float_returns[OF ac nac] by (elim exE conjE) (rule that; assumption)
  let ?g = "\<lparr>gps_datetime = dt, gps_latitude = lat, gps_longitude = lon,
             gps_altitude = map_option (round2 lib) alt, gps_accuracy = acc\<rparr>"
  have c1: "bind (parse_updated_datetime lib s) (\<lambda>dt.
       bind (py_float lib la) (\<lambda>lat.
       bind (py_float lib lo) (\<lambda>lon.
       bind (optional_float lib al) (\<lambda>alt.
       bind (optional_float lib ac) (\<lambda>acc.
         Inr \<lparr>gps_datetime = dt, gps_latitude = lat, gps_longitude = lon,
              gps_altitude = map_option (round2 lib) alt, gps_accuracy = acc\<rparr>))))) = Inr ?g"
    by (simp add: bind_Inr[OF dt] bind_Inr[OF lat] bind_Inr[OF lon] bind_Inr[OF alt]
          bind_Inr[OF acc])
  have c2: "parse_updated_datetime lib s = Inr (gps_datetime ?g)" by (simp add: dt)
  have c3: "py_float lib la = Inr (gps_latitude ?g)" by (simp add: lat)
  have c4: "py_float lib lo = Inr (gps_longitude ?g)" by (simp add: lon)
  have c5: "al = None \<or> al = Some JNull \<longrightarrow> gps_altitude ?g = None"
    using alt_absent by auto
  have c6: "\<forall>v. al = Some v \<and> v \<noteq> JNull \<longrightarrow>
              (\<exists>x. py_float lib v = Inr x \<and> gps_altitude ?g = Some (round2 lib x))"
  proof (intro allI impI)
    fix v assume "al = Some v \<and> v \<noteq> JNull"
    then obtain x where x: "py_float lib v = Inr x" "alt = Some x" using alt_present by blast
    have "gps_altitude ?g = Some (round2 lib x)" by (simp add: x(2))
    then show "\<exists>x. py_float lib v = Inr x \<and> gps_altitude ?g = Some (round2 lib x)"
      using x(1) by blast
  qed
  have c7: "ac = None \<or> ac = Some JNull \<longrightarrow> gps_accuracy ?g = None"
    using acc_absent by auto
  have c8: "\<forall>v. ac = Some v \<and> v \<noteq> JNull \<longrightarrow>
              (\<exists>x. py_float lib v = Inr x \<and> gps_accuracy ?g = Some x)"
  proof (intro allI impI)
    fix v assume "ac = Some v \<and> v \<noteq> JNull"
    then obtain x where x: "py_float lib v = Inr x" "acc = Some x" using acc_present by blast
    have "gps_accuracy ?g = Some x" by (simp add: x(2))
    then show "\<exists>x. py_float lib v = Inr x \<and> gps_accuracy ?g = Some x"
      using x(1) by blast
  qed
  show ?thesis
    by (rule exI[where x = ?g]) (intro conjI c1 c2 c3 c4 c5 c6 c7 c8)
qed

text \<open>
  Claim C7, amended. Bytes that are not valid JSON text fail with the malformed-input
  error (ValueError). For a document that is a JSON object whose latitude and longitude,
  where present, are values \<open>float\<close> takes (a number in its range, a boolean or a
  string), and whose altitude and accuracy, where present, are null or such a value, the
  parser fails, with the malformed-input error, exactly when one of the three required
  fields is absent, the timestamp matches neither form, or the latitude, the longitude,
  the altitude or the accuracy is a string that is not numeric. Otherwise it succeeds:
  the altitude is rounded to two decimals when present and not null, and altitude and
  accuracy are \<open>None\<close> when missing or null.
\<close>

theorem parse_gps_json_fails_exactly_when:
  "parse_gps_json lib (Inl msg) = Inl (ValueError (''Invalid JSON: '' @ msg))
   \<and> ((case map_of kv ''Latitude'' of None \<Rightarrow> True | Some v \<Rightarrow> float_input lib v)
      \<and> (case map_of kv ''Longitude'' of None \<Rightarrow> True | Some v \<Rightarrow> float_input lib v)
      \<and> (case map_of kv ''Altitude'' of None \<Rightarrow> True | Some v \<Rightarrow> v = JNull \<or> float_input lib v)
      \<and> (case map_of kv ''Accuracy'' of None \<Rightarrow> True | Some v \<Rightarrow> v = JNull \<or> float_input lib v)
      \<longrightarrow>
      (if map_of kv ''Updated'' = None \<or> map_of kv ''Latitude'' = None
          \<or> map_of kv ''Longitude'' = None
          \<or> (\<exists>u. map_of kv ''Updated'' = Some u \<and> timestamp_unrecognised lib (py_str lib u))
          \<or> (\<exists>v. map_of kv ''Latitude'' = Some v \<and> not_numeric lib v)
          \<or> (\<exists>v. map_of kv ''Longitude'' = Some v \<and> not_numeric lib v)
          \<or> (\<exists>v. map_of kv ''Altitude'' = Some v \<and> not_numeric lib v)
          \<or> (\<exists>v. map_of kv ''Accuracy'' = Some v \<and> not_numeric lib v)
       then \<exists>m. parse_gps_json lib (Inr (JObj kv)) = Inl (ValueError m)
       else \<exists>g. parse_gps_json lib (Inr (JObj kv)) = Inr g
              \<and> (\<exists>u. map_of kv ''Updated'' = Some u
                     \<and> parse_updated_datetime lib (py_str lib u) = Inr (gps_datetime g))
              \<and> (\<exists>v. map_of kv ''Latitude'' = Some v \<and> py_float lib v = Inr (gps_latitude g))
              \<and> (\<exists>v. map_of kv ''Longitude'' = Some v \<and> py_float lib v = Inr (gps_longitude g))
              \<and> (map_of kv ''Altitude'' = None \<or> map_of kv ''Altitude'' = Some JNull
                    \<longrightarrow> gps_altitude g = None)
              \<and> (\<forall>v. map_of kv ''Altitude'' = Some v \<and> v \<noteq> JNull \<longrightarrow>
                    (\<exists>x. py_float lib v = Inr x \<and> gps_altitude g = Some (round2 lib x)))
              \<and> (map_of kv ''Accuracy'' = None \<or> map_of kv ''Accuracy'' = Some JNull
                    \<longrightarrow> gps_accuracy g = None)
              \<and> (\<forall>v. map_of kv ''Accuracy'' = Some v \<and> v \<noteq> JNull \<longrightarrow>
                    (\<exists>x. py_float lib v = Inr x \<and> gps_accuracy g = Some x))))"
proof (intro conjI impI)
  show "parse_gps_json lib (Inl msg) = Inl (ValueError (''Invalid JSON: '' @ msg))"
    by (simp add: parse_gps_json_def)
next
  let ?missing = "map_of kv ''Updated'' = None \<or> map_of kv ''Latitude'' = None
          \<or> map_of kv ''Longitude'' = None"
  let ?defect = "map_of kv ''Updated'' = None \<or> map_of kv ''Latitude'' = None
          \<or> map_of kv ''Longitude'' = None
          \<or> (\<exists>u. map_of kv ''Updated'' = Some u \<and> timestamp_unrecognised lib (py_str lib u))
          \<or> (\<exists>v. map_of kv ''Latitude'' = Some v \<and> not_numeric lib v)
          \<or> (\<exists>v. map_of kv ''Longitude'' = Some v \<and> not_numeric lib v)
          \<or> (\<exists>v. map_of kv ''Altitude'' = Some v \<and> not_numeric lib v)
          \<or> (\<exists>v. map_of kv ''Accuracy'' = Some v \<and> not_numeric lib v)"
  let ?fails = "\<exists>m. parse_gps_json lib (Inr (JObj kv)) = Inl (ValueError m)"
  let ?returns = "\<exists>g. parse_gps_json lib (Inr (JObj kv)) = Inr g
              \<and> (\<exists>u. map_of kv ''Updated'' = Some u
                     \<and> parse_updated_datetime lib (py_str lib u) = Inr (gps_datetime g))
              \<and> (\<exists>v. map_of kv ''Latitude'' = Some v \<and> py_float lib v = Inr (gps_latitude g))
              \<and> (\<exists>v. map_of kv ''Longitude'' = Some v \<and> py_float lib v = Inr (gps_longitude g))
              \<and> (map_of kv ''Altitude'' = None \<or> map_of kv ''Altitude'' = Some JNull
                    \<longrightarrow> gps_altitude g = None)
              \<and> (\<forall>v. map_of kv ''Altitude'' = Some v \<and> v \<noteq> JNull \<longrightarrow>
                    (\<exists>x. py_float lib v = Inr x \<and> gps_altitude g = Some (round2 lib x)))
              \<and> (map_of kv ''Accuracy'' = None \<or> map_of kv ''Accuracy'' = Some JNull
                    \<longrightarrow> gps_accuracy g = None)
              \<and> (\<forall>v. map_of kv ''Accuracy'' = Some v \<and> v \<noteq> JNull \<longrightarrow>
                    (\<exists>x. py_float lib v = Inr x \<and> gps_accuracy g = Some x))"
  assume t: "(case map_of kv ''Latitude'' of None \<Rightarrow> True | Some v \<Rightarrow> float_input lib v)
      \<and> (case map_of kv ''Longitude'' of None \<Rightarrow> True | Some v \<Rightarrow> float_input lib v)
      \<and> (case map_of kv ''Altitude'' of None \<Rightarrow> True | Some v \<Rightarrow> v = JNull \<or> float_input lib v)
      \<and> (case map_of kv ''Accuracy'' of None \<Rightarrow> True | Some v \<Rightarrow> v = JNull \<or> float_input lib v)"
  then have tal: "case map_of kv ''Altitude'' of None \<Rightarrow> True | Some v \<Rightarrow> v = JNull \<or> float_input lib v"
    and tac: "case map_of kv ''Accuracy'' of None \<Rightarrow> True | Some v \<Rightarrow> v = JNull \<or> float_input lib v"
    by blast+
  show "if ?defect then ?fails else ?returns"
  proof (cases ?missing)
    case True
    then have d: ?defect by blast
    have ?fails using parse_gps_json_obj_missing[OF True, of lib] by blast
    then show ?thesis unfolding if_P[OF d] .
  next
    case False
    then obtain u la lo where k: "map_of kv ''Updated'' = Some u"
      "map_of kv ''Latitude'' = Some la" "map_of kv ''Longitude'' = Some lo" by auto
    note p = parse_gps_json_obj_present[OF k, of lib]
    have tla: "float_input lib la" and tlo: "float_input lib lo" using t k by simp_all
    let ?d = "timestamp_unrecognised lib (py_str lib u) \<or> not_numeric lib la \<or> not_numeric lib lo
            \<or> (\<exists>v. map_of kv ''Altitude'' = Some v \<and> not_numeric lib v)
            \<or> (\<exists>v. map_of kv ''Accuracy'' = Some v \<and> not_numeric lib v)"
    have dd: "?defect = ?d" by (simp add: k)
    show ?thesis
    proof (cases ?d)
      case True
      then have d: ?defect using dd by blast
      have ?fails unfolding p by (rule gps_fields_fail[OF tla tlo tal True])
      then show ?thesis unfolding if_P[OF d] .
    next
      case nd: False
      then have d: "\<not> ?defect" using dd by blast
      from nd have ts: "\<not> timestamp_unrecognised lib (py_str lib u)"
        and nla: "\<not> not_numeric lib la" and nlo: "\<not> not_numeric lib lo"
        and nal: "\<not> (\<exists>v. map_of kv ''Altitude'' = Some v \<and> not_numeric lib v)"
        and nac: "\<not> (\<exists>v. map_of kv ''Accuracy'' = Some v \<and> not_numeric lib v)"
        by blast+
      have ?returns
        unfolding p using gps_fields_return[OF tla tlo tal tac ts nla nlo nal nac]
        by (simp add: k)
      then show ?thesis unfolding if_not_P[OF d] .
    qed
  qed
qed

lemmas gps_eval_defs =
  example_lib_def ymd_hms_def digits_to_nat_def days_in_month_def slice_def hexval_def
  strip_def lstrip_chars_def rstrip_chars_def whitespace_def replace_Z_def py_str_def

lemma example_timestamp:
  "fromisoformat example_lib (replace_Z (strip ''2025-08-29 21:05:52''))
     = Some \<lparr>dt_year = 2025, dt_month = 8, dt_day = 29, dt_hour = 21, dt_minute = 5, dt_second = 52\<rparr>"
  by (simp add: gps_eval_defs)

lemma example_timestamp_recognised:
  "\<not> timestamp_unrecognised example_lib (py_str example_lib (JStr ''2025-08-29 21:05:52''))"
  by (simp add: timestamp_unrecognised_def py_str_def example_timestamp)

lemma example_datetime:
  "parse_updated_datetime example_lib ''2025-08-29 21:05:52''
     = Inr \<lparr>dt_year = 2025, dt_month = 8, dt_day = 29, dt_hour = 21, dt_minute = 5, dt_second = 52\<rparr>"
  by (simp add: parse_updated_datetime_def Let_def example_timestamp)

lemma example_round2: "round2 example_lib 123.456 = 123.46"
  by (simp add: example_lib_def round_def)

lemma example_not_numeric: "not_numeric example_lib (JStr ''high'')"
  by (simp add: not_numeric_def example_lib_def digits_to_nat_def)

text \<open>
  The claim as it stands fails for a document with a non-numeric altitude: the three
  required fields are present, the timestamp is of the fixed form, latitude and longitude
  are numbers, and the parser fails.
\<close>

theorem parse_gps_json_counterexample:
  "map_of (example_gps @ [(''Altitude'', JStr ''high'')]) ''Updated''
     = Some (JStr ''2025-08-29 21:05:52'')
   \<and> \<not> timestamp_unrecognised example_lib ''2025-08-29 21:05:52''
   \<and> map_of (example_gps @ [(''Altitude'', JStr ''high'')]) ''Latitude'' = Some (JFloat 45.1)
   \<and> map_of (example_gps @ [(''Altitude'', JStr ''high'')]) ''Longitude'' = Some (JFloat 9.2)
   \<and> parse_gps_json example_lib (Inr (JObj (example_gps @ [(''Altitude'', JStr ''high'')])))
       = Inl (ValueError ''could not convert string to float'')"
proof -
  have k: "map_of (example_gps @ [(''Altitude'', JStr ''high'')]) ''Updated''
             = Some (JStr ''2025-08-29 21:05:52'')"
    "map_of (example_gps @ [(''Altitude'', JStr ''high'')]) ''Latitude'' = Some (JFloat 45.1)"
    "map_of (example_gps @ [(''Altitude'', JStr ''high'')]) ''Longitude'' = Some (JFloat 9.2)"
    by (simp_all add: example_gps_def)
  have a: "map_of (example_gps @ [(''Altitude'', JStr ''high'')]) ''Altitude'' = Some (JStr ''high'')"
    by (simp add: example_gps_def)
  have f: "optional_float example_lib (Some (JStr ''high''))
             = Inl (ValueError ''could not convert string to float'')"
    by (simp add: optional_float_def bind_def py_float_def example_lib_def digits_to_nat_def)
  have r: "parse_gps_json example_lib (Inr (JObj (example_gps @ [(''Altitude'', JStr ''high'')])))
       = Inl (ValueError ''could not convert string to float'')"
    unfolding parse_gps_json_obj_present[OF k] a
    by (simp add: py_str_def example_datetime bind_def py_float_def f)
  from example_timestamp_recognised have "\<not> timestamp_unrecognised example_lib ''2025-08-29 21:05:52''"
    by (simp add: py_str_def)
  with k r show ?thesis by simp
qed

lemma optional_float_number: "optional_float lib (Some (JFloat x)) = Inr (Some x)"
  by (simp add: optional_float_def bind_def py_float_def)

lemma example_document:
  "parse_gps_json example_lib
        (Inr (JObj (example_gps @ [(''Altitude'', JFloat 123.456), (''Accuracy'', JNull)])))
       = Inr \<lparr>gps_datetime = \<lparr>dt_year = 2025, dt_month = 8, dt_day = 29,
                                dt_hour = 21, dt_minute = 5, dt_second = 52\<rparr>,
              gps_latitude = 45.1, gps_longitude = 9.2,
              gps_altitude = Some 123.46, gps_accuracy = None\<rparr>"
proof -
  let ?kv = "example_gps @ [(''Altitude'', JFloat 123.456), (''Accuracy'', JNull)]"
  have k: "map_of ?kv ''Updated'' = Some (JStr ''2025-08-29 21:05:52'')"
    "map_of ?kv ''Latitude'' = Some (JFloat 45.1)"
    "map_of ?kv ''Longitude'' = Some (JFloat 9.2)"
    by (simp_all add: example_gps_def)
  have a: "map_of ?kv ''Altitude'' = Some (JFloat 123.456)" "map_of ?kv ''Accuracy'' = Some JNull"
    by (simp_all add: example_gps_def)
  have s: "py_str example_lib (JStr ''2025-08-29 21:05:52'') = ''2025-08-29 21:05:52''"
    by (simp add: py_str_def)
  have p: "py_float example_lib (JFloat x) = Inr x" for x :: real
    by (simp add: py_float_def)
  show ?thesis
    unfolding parse_gps_json_obj_present[OF k] a s
    by (simp only: bind_Inr[OF example_datetime] bind_Inr[OF p] bind_Inr[OF optional_float_number]
          bind_Inr[OF optional_float_absent(2)] option.map example_round2)
qed

theorem parse_gps_json_fails_exactly_when_witness:
  "float_input example_lib (JFloat 45.1) \<and> float_input example_lib (JFloat 9.2)
   \<and> float_input example_lib (JFloat 123.456)
   \<and> \<not> timestamp_unrecognised example_lib ''2025-08-29 21:05:52''
   \<and> \<not> not_numeric example_lib (JFloat 45.1) \<and> \<not> not_numeric example_lib (JFloat 9.2)
   \<and> \<not> not_numeric example_lib (JFloat 123.456)
   \<and> parse_gps_json example_lib
        (Inr (JObj (example_gps @ [(''Altitude'', JFloat 123.456), (''Accuracy'', JNull)])))
       = Inr \<lparr>gps_datetime = \<lparr>dt_year = 2025, dt_month = 8, dt_day = 29,
                                dt_hour = 21, dt_minute = 5, dt_second = 52\<rparr>,
              gps_latitude = 45.1, gps_longitude = 9.2,
              gps_altitude = Some 123.46, gps_accuracy = None\<rparr>"
proof -
  have t: "float_input example_lib (JFloat x)" "\<not> not_numeric example_lib (JFloat x)" for x :: real
    by (simp_all add: float_input_def not_numeric_def)
  have ts: "\<not> timestamp_unrecognised example_lib ''2025-08-29 21:05:52''"
    using example_timestamp_recognised by (simp add: py_str_def)
  from parse_gps_json_fails_exactly_when[of example_lib "[]"
      "example_gps @ [(''Altitude'', JFloat 123.456), (''Accuracy'', JNull)]"]
    t ts example_document
  show ?thesis by simp
qed

section \<open>Properties of the extraction from an EAPOL line\<close>

lemma parse_22000_line_eapol:
  assumes "startswith first_line ''WPA*''"
    and "split_char CHR ''*'' (strip first_line) ! 1 = ''02''"
    and "6 \<le> length (split_char CHR ''*'' (strip first_line))"
  shows "parse_22000_line first_line =
           Inr \<lparr>hl_kind = ''EAPOL'', hl_bssid = split_char CHR ''*'' (strip first_line) ! 3,
                hl_station = split_char CHR ''*'' (strip first_line) ! 4,
                hl_ssid = decode_essid (split_char CHR ''*'' (strip first_line) ! 5),
                hl_hash_type = ''WPA'', hl_variant = ''EAPOL''\<rparr>"
  using startswith_strip[OF assms(1)] assms(2,3) by (simp add: parse_22000_line_def Let_def)

lemmas meta_eval_defs =
  meta_of_line_def bssid_hex12_of_def fmt_mac_colon_def lower_def lower_char_def upper_def
  upper_char_def hexdigits_def hexdigits_lower_def slice_def Let_def

lemma split_claim_line:
  "split_char CHR ''*'' (strip ''WPA*02*aabbccddeeff*112233445566*4d7953534944*00...:'')
     = [''WPA'', ''02'', ''aabbccddeeff'', ''112233445566'', ''4d7953534944'', ''00...:'']"
  by (simp add: strip_def lstrip_chars_def rstrip_chars_def whitespace_def)

lemma first_wpa_line_claim_line:
  "first_wpa_line (strip (out_text (converter_ok ''WPA*02*aabbccddeeff*112233445566*4d7953534944*00...:'')))
     = Some ''WPA*02*aabbccddeeff*112233445566*4d7953534944*00...:''"
  by (simp add: ingest_eval_defs)

lemma decode_essid_claim_line: "decode_essid ''00...:'' = unicode_of ''00...:''"
  by (simp add: decode_essid_def is_hex_def hexdigits_def)

lemma address_claim_line:
  "bssid_hex12_of ''112233445566'' = ''112233445566''"
  "fmt_mac_colon ''112233445566'' = ''11:22:33:44:55:66''"
  by (simp_all add: meta_eval_defs)

lemma split_hash_line:
  "split_char CHR ''*''
     (strip ''WPA*02*00112233445566778899aabbccddeeff*aabbccddeeff*112233445566*4d7953534944*00...:'')
     = [''WPA'', ''02'', ''00112233445566778899aabbccddeeff'', ''aabbccddeeff'', ''112233445566'',
        ''4d7953534944'', ''00...:'']"
  by (simp add: strip_def lstrip_chars_def rstrip_chars_def whitespace_def)

lemma first_wpa_line_hash_line:
  "first_wpa_line (strip (out_text (converter_ok
      ''WPA*02*00112233445566778899aabbccddeeff*aabbccddeeff*112233445566*4d7953534944*00...:'')))
     = Some ''WPA*02*00112233445566778899aabbccddeeff*aabbccddeeff*112233445566*4d7953534944*00...:''"
  by (simp add: ingest_eval_defs)

lemma decode_essid_hash_line: "decode_essid ''4d7953534944'' = unicode_of ''MySSID''"
  by (simp add: decode_essid_def is_hex_def hexdigits_def hexval_def continuation_def unicode_of_def)

lemma address_hash_line:
  "bssid_hex12_of ''aabbccddeeff'' = ''aabbccddeeff''"
  "fmt_mac_colon ''aabbccddeeff'' = ''AA:BB:CC:DD:EE:FF''"
  by (simp_all add: meta_eval_defs)

lemma convert_eapol:
  assumes "pcap_exists run" "returncode run = 0" "out_exists run"
    and "first_wpa_line (strip (out_text run)) = Some first_line"
    and "split_char CHR ''*'' (strip first_line) ! 1 = ''02''"
    and "6 \<le> length (split_char CHR ''*'' (strip first_line))"
  shows "convert_pcap_to_hc22000_and_meta run =
           Inr \<lparr>hc_ssid = (let name = decode_essid (split_char CHR ''*'' (strip first_line) ! 5)
                           in if name \<noteq> [] then Some name else None),
                hc_bssid = (let a = bssid_hex12_of (split_char CHR ''*'' (strip first_line) ! 3)
                            in if a \<noteq> [] then Some (fmt_mac_colon a) else None),
                hc_type = ''WPA'', hc_variant = ''EAPOL''\<rparr>"
  unfolding convert_ok[OF assms(1-4)]
    parse_22000_line_eapol[OF first_wpa_line_startswith[OF assms(4)] assms(5,6)]
  by (simp add: meta_of_line_def Let_def)

lemma converter_ok_run:
  "pcap_exists (converter_ok t)" "returncode (converter_ok t) = 0" "out_exists (converter_ok t)"
  by (simp_all add: converter_ok_def)

lemma convert_claim_line:
  "convert_pcap_to_hc22000_and_meta
       (converter_ok ''WPA*02*aabbccddeeff*112233445566*4d7953534944*00...:'')
     = Inr \<lparr>hc_ssid = Some (unicode_of ''00...:''), hc_bssid = Some ''11:22:33:44:55:66'',
            hc_type = ''WPA'', hc_variant = ''EAPOL''\<rparr>"
proof -
  have a: "split_char CHR ''*'' (strip ''WPA*02*aabbccddeeff*112233445566*4d7953534944*00...:'') ! 1
             = ''02''"
    and b: "6 \<le> length (split_char CHR ''*''
                (strip ''WPA*02*aabbccddeeff*112233445566*4d7953534944*00...:''))"
    unfolding split_claim_line by simp_all
  have n: "unicode_of ''00...:'' \<noteq> []" by (simp add: unicode_of_def)
  show ?thesis
    unfolding convert_eapol[OF converter_ok_run first_wpa_line_claim_line a b] split_claim_line
    using n by (simp add: decode_essid_claim_line address_claim_line Let_def)
qed

lemma example_location:
  "parse_gps_json example_lib (Inr (JObj example_gps))
     = Inr \<lparr>gps_datetime = \<lparr>dt_year = 2025, dt_month = 8, dt_day = 29,
                              dt_hour = 21, dt_minute = 5, dt_second = 52\<rparr>,
            gps_latitude = 45.1, gps_longitude = 9.2,
            gps_altitude = None, gps_accuracy = None\<rparr>"
proof -
  have k: "map_of example_gps ''Updated'' = Some (JStr ''2025-08-29 21:05:52'')"
    "map_of example_gps ''Latitude'' = Some (JFloat 45.1)"
    "map_of example_gps ''Longitude'' = Some (JFloat 9.2)"
    by (simp_all add: example_gps_def)
  have a: "map_of example_gps ''Altitude'' = None" "map_of example_gps ''Accuracy'' = None"
    by (simp_all add: example_gps_def)
  have s: "py_str example_lib (JStr ''2025-08-29 21:05:52'') = ''2025-08-29 21:05:52''"
    by (simp add: py_str_def)
  have p: "py_float example_lib (JFloat x) = Inr x" for x :: real
    by (simp add: py_float_def)
  show ?thesis
    unfolding parse_gps_json_obj_present[OF k] a s
    by (simp only: bind_Inr[OF example_datetime] bind_Inr[OF p]
          bind_Inr[OF optional_float_absent(1)] option.map)
qed

lemma example_strftime:
  "strftime_date \<lparr>dt_year = 2025, dt_month = 8, dt_day = 29,
                   dt_hour = 21, dt_minute = 5, dt_second = 52\<rparr> = ''2025-08-29''"
  "strftime_time \<lparr>dt_year = 2025, dt_month = 8, dt_day = 29,
                   dt_hour = 21, dt_minute = 5, dt_second = 52\<rparr> = ''21:05:52''"
  by (simp_all add: strftime_date_def strftime_time_def pad2_def pad4_def digit_def)

lemma norm_bssid_claim_line: "norm_bssid (Some ''11:22:33:44:55:66'') = Some ''11:22:33:44:55:66''"
  by (simp add: norm_bssid_def upper_def upper_char_def strip_def lstrip_chars_def
        rstrip_chars_def whitespace_def hexdigits_def Let_def numeral_eq_Suc)

lemma vendor_claim_line:
  "lookup_vendor_from_csv oui_initial None (Some ''11:22:33:44:55:66'')
     = (oui_initial\<lparr>oui_loaded := True\<rparr>, None)"
  by (simp add: lookup_vendor_from_csv_def oui_eval_defs)

lemma insert_first_row:
  "insert_network_record empty_db n = (\<lparr>db_rows = [(1, n)], db_seq = 1\<rparr>, 1)"
  by (simp add: insert_network_record_def insert_or_ignore_def next_rowid_def empty_db_def Let_def)

lemma upload_claim_line:
  "upload_pair example_lib None ''capture.pcap'' ''capture'' (Inr (JObj example_gps))
       (converter_ok ''WPA*02*aabbccddeeff*112233445566*4d7953534944*00...:'') example_server
     = (\<lparr>srv_oui = oui_initial\<lparr>oui_loaded := True\<rparr>,
         srv_db = \<lparr>db_rows =
           [(1, \<lparr>net_ssid = Some (unicode_of ''00...:''), net_bssid = Some ''11:22:33:44:55:66'',
                 net_vendor = None, net_date = Some ''2025-08-29'', net_time = Some ''21:05:52'',
                 net_hash_type = Some ''WPA'', net_hash_variant = Some ''EAPOL'',
                 net_lat = Some 45.1, net_lon = Some 9.2, net_alt = None, net_accuracy = None,
                 net_password = None\<rparr>)], db_seq = 1\<rparr>\<rparr>,
        Inr \<lparr>resp_ssid = unicode_of ''00...:'', resp_record_id = 1,
             resp_hash_meta_error = None\<rparr>)"
proof -
  have n: "unicode_of ''00...:'' \<noteq> []" by (simp add: unicode_of_def)
  show ?thesis
    unfolding upload_pair_def example_location convert_or_none_def convert_claim_line
    using n
    by (simp add: meta_ssid_of_def norm_bssid_claim_line vendor_claim_line upload_record_def
          example_strftime example_server_def insert_first_row Let_def)
qed

text \<open>
  Claim C1, amended. For every converter output whose first line beginning with the
  \<open>WPA*\<close> sentinel has kind code 02 (EAPOL) and at least 6 \<open>*\<close>-separated fields, the
  extracted record takes the access-point address from position 3 (sentinel, code, a field
  the parser does not read, AP address, station address, network-name) and the
  network-name from position 5, as it does for kind code 01. In particular a converter
  output containing the line \<open>WPA*02*aabbccddeeff*112233445566*4d7953534944*00...:\<close>
  together with the location document
  \<open>{"Updated": "2025-08-29 21:05:52", "Latitude": 45.1, "Longitude": 9.2}\<close> yields a
  record with the network-name \<open>00...:\<close> (position 5, not hex digits, kept as it is), the
  address \<open>11:22:33:44:55:66\<close> (position 3), date \<open>2025-08-29\<close>, time \<open>21:05:52\<close> and
  password null.
\<close>

theorem convert_eapol_field_positions:
  "(pcap_exists run \<and> returncode run = 0 \<and> out_exists run
      \<and> first_wpa_line (strip (out_text run)) = Some first_line
      \<and> split_char CHR ''*'' (strip first_line) ! 1 = ''02''
      \<and> 6 \<le> length (split_char CHR ''*'' (strip first_line)) \<longrightarrow>
      convert_pcap_to_hc22000_and_meta run =
        Inr \<lparr>hc_ssid = (let name = decode_essid (split_char CHR ''*'' (strip first_line) ! 5)
                        in if name \<noteq> [] then Some name else None),
             hc_bssid = (let a = bssid_hex12_of (split_char CHR ''*'' (strip first_line) ! 3)
                         in if a \<noteq> [] then Some (fmt_mac_colon a) else None),
             hc_type = ''WPA'', hc_variant = ''EAPOL''\<rparr>)
   \<and> db_rows (srv_db (fst (upload_pair example_lib None ''capture.pcap'' ''capture''
         (Inr (JObj example_gps))
         (converter_ok ''WPA*02*aabbccddeeff*112233445566*4d7953534944*00...:'') example_server)))
       = [(1, \<lparr>net_ssid = Some (unicode_of ''00...:''), net_bssid = Some ''11:22:33:44:55:66'',
                net_vendor = None, net_date = Some ''2025-08-29'', net_time = Some ''21:05:52'',
                net_hash_type = Some ''WPA'', net_hash_variant = Some ''EAPOL'',
                net_lat = Some 45.1, net_lon = Some 9.2, net_alt = None, net_accuracy = None,
                net_password = None\<rparr>)]"
proof (intro conjI impI)
  assume a: "pcap_exists run \<and> returncode run = 0 \<and> out_exists run
      \<and> first_wpa_line (strip (out_text run)) = Some first_line
      \<and> split_char CHR ''*'' (strip first_line) ! 1 = ''02''
      \<and> 6 \<le> length (split_char CHR ''*'' (strip first_line))"
  then have "pcap_exists run" "returncode run = 0" "out_exists run"
    "first_wpa_line (strip (out_text run)) = Some first_line"
    "split_char CHR ''*'' (strip first_line) ! 1 = ''02''"
    "6 \<le> length (split_char CHR ''*'' (strip first_line))"
    by blast+
  then show "convert_pcap_to_hc22000_and_meta run =
        Inr \<lparr>hc_ssid = (let name = decode_essid (split_char CHR ''*'' (strip first_line) ! 5)
                        in if name \<noteq> [] then Some name else None),
             hc_bssid = (let a = bssid_hex12_of (split_char CHR ''*'' (strip first_line) ! 3)
                         in if a \<noteq> [] then Some (fmt_mac_colon a) else None),
             hc_type = ''WPA'', hc_variant = ''EAPOL''\<rparr>"
    by (rule convert_eapol)
next
  show "db_rows (srv_db (fst (upload_pair example_lib None ''capture.pcap'' ''capture''
         (Inr (JObj example_gps))
         (converter_ok ''WPA*02*aabbccddeeff*112233445566*4d7953534944*00...:'') example_server)))
       = [(1, \<lparr>net_ssid = Some (unicode_of ''00...:''), net_bssid = Some ''11:22:33:44:55:66'',
                net_vendor = None, net_date = Some ''2025-08-29'', net_time = Some ''21:05:52'',
                net_hash_type = Some ''WPA'', net_hash_variant = Some ''EAPOL'',
                net_lat = Some 45.1, net_lon = Some 9.2, net_alt = None, net_accuracy = None,
                net_password = None\<rparr>)]"
    unfolding upload_claim_line by simp
qed

text \<open>
  The claim as it stands fails on its own example: positions 2 and 4 of the line hold
  \<open>aabbccddeeff\<close> and the hex digits of \<open>MySSID\<close>, and the record extracted has neither.
\<close>

theorem convert_eapol_counterexample:
  "split_char CHR ''*'' (strip ''WPA*02*aabbccddeeff*112233445566*4d7953534944*00...:'') ! 2
     = ''aabbccddeeff''
   \<and> split_char CHR ''*'' (strip ''WPA*02*aabbccddeeff*112233445566*4d7953534944*00...:'') ! 4
     = ''4d7953534944''
   \<and> convert_pcap_to_hc22000_and_meta
       (converter_ok ''WPA*02*aabbccddeeff*112233445566*4d7953534944*00...:'')
     = Inr \<lparr>hc_ssid = Some (unicode_of ''00...:''), hc_bssid = Some ''11:22:33:44:55:66'',
            hc_type = ''WPA'', hc_variant = ''EAPOL''\<rparr>
   \<and> unicode_of ''00...:'' \<noteq> unicode_of ''MySSID''
   \<and> ''11:22:33:44:55:66'' \<noteq> ''AA:BB:CC:DD:EE:FF''"
  unfolding split_claim_line convert_claim_line by (simp add: unicode_of_def)

theorem convert_eapol_field_positions_witness:
  "first_wpa_line (strip (out_text (converter_ok
      ''WPA*02*00112233445566778899aabbccddeeff*aabbccddeeff*112233445566*4d7953534944*00...:'')))
     = Some ''WPA*02*00112233445566778899aabbccddeeff*aabbccddeeff*112233445566*4d7953534944*00...:''
   \<and> split_char CHR ''*'' (strip
        ''WPA*02*00112233445566778899aabbccddeeff*aabbccddeeff*112233445566*4d7953534944*00...:'') ! 1
     = ''02''
   \<and> 6 \<le> length (split_char CHR ''*'' (strip
        ''WPA*02*00112233445566778899aabbccddeeff*aabbccddeeff*112233445566*4d7953534944*00...:''))
   \<and> convert_pcap_to_hc22000_and_meta (converter_ok
        ''WPA*02*00112233445566778899aabbccddeeff*aabbccddeeff*112233445566*4d7953534944*00...:'')
     = Inr \<lparr>hc_ssid = Some (unicode_of ''MySSID''), hc_bssid = Some ''AA:BB:CC:DD:EE:FF'',
            hc_type = ''WPA'', hc_variant = ''EAPOL''\<rparr>"
proof -
  have n: "unicode_of ''MySSID'' \<noteq> []" by (simp add: unicode_of_def)
  from convert_eapol_field_positions[of "converter_ok
      ''WPA*02*00112233445566778899aabbccddeeff*aabbccddeeff*112233445566*4d7953534944*00...:''"
      "''WPA*02*00112233445566778899aabbccddeeff*aabbccddeeff*112233445566*4d7953534944*00...:''"]
  have "convert_pcap_to_hc22000_and_meta (converter_ok
        ''WPA*02*00112233445566778899aabbccddeeff*aabbccddeeff*112233445566*4d7953534944*00...:'')
     = Inr \<lparr>hc_ssid = Some (unicode_of ''MySSID''), hc_bssid = Some ''AA:BB:CC:DD:EE:FF'',
            hc_type = ''WPA'', hc_variant = ''EAPOL''\<rparr>"
    unfolding first_wpa_line_hash_line split_hash_line
    using n by (simp add: converter_ok_run decode_essid_hash_line address_hash_line Let_def)
  then show ?thesis
    unfolding first_wpa_line_hash_line split_hash_line by simp
qed

end
